theory Spec2Isabelle
  imports Complex_Main
begin

section \<open>Errors and library results\<close>

text \<open>
  The notebooks are straight-line scripts over numpy, pandas, scikit-learn and matplotlib.
  An exception raised by a library call is a value of type \<open>error\<close>; a fallible call
  returns \<open>error + 'a\<close>, with \<open>Inl\<close> for the exception.
\<close>

datatype error =
  ValueError | IndexError | KeyError | NameError | TypeError | UndefinedMetric
  | LibraryError string

definition bind_result :: "error + 'a \<Rightarrow> ('a \<Rightarrow> error + 'b) \<Rightarrow> error + 'b" where
  "bind_result m f = (case m of Inl e \<Rightarrow> Inl e | Inr x \<Rightarrow> f x)"

section \<open>Spam filter: prediction functions for unseen input\<close>

text \<open>
  \<^verbatim>\<open>np.array(email_list)\<close> on a list of (word_count, cap_frequency) tuples: one row per
  tuple.
\<close>

definition np_array :: "('a \<times> 'a) list \<Rightarrow> 'a list list" where
  "np_array email_list = map (\<lambda>(w, c). [w, c]) email_list"

text \<open>
  \<^verbatim>\<open>
  def predict_single_email(word_count, cap_frequency):
      input_data = np.array([[word_count, cap_frequency]])
      prediction = gnb.predict(input_data)[0]
      return "Spam" if prediction == 1 else "Not Spam"
  \<close>
  The trained model \<open>gnb\<close> is a notebook global; its \<open>predict\<close> method is the
  parameter \<open>gnb_predict\<close>. Indexing an empty result with \<open>[0]\<close> raises IndexError.
\<close>

definition predict_single_email ::
  "('a list list \<Rightarrow> error + int list) \<Rightarrow> 'a \<Rightarrow> 'a \<Rightarrow> error + string" where
  "predict_single_email gnb_predict word_count cap_frequency =
     (let input_data = [[word_count, cap_frequency]] in
      case gnb_predict input_data of
        Inl e \<Rightarrow> Inl e
      | Inr predictions \<Rightarrow>
          (case predictions of
             [] \<Rightarrow> Inl IndexError
           | prediction # _ \<Rightarrow> Inr (if prediction = 1 then ''Spam'' else ''Not Spam'')))"

text \<open>
  \<^verbatim>\<open>
  def predict_batch_emails(email_list):
      input_data = np.array(email_list)
      predictions = gnb.predict(input_data)
      return ["Spam" if pred == 1 else "Not Spam" for pred in predictions]
  \<close>
\<close>

definition predict_batch_emails ::
  "('a list list \<Rightarrow> error + int list) \<Rightarrow> ('a \<times> 'a) list \<Rightarrow> error + string list" where
  "predict_batch_emails gnb_predict email_list =
     (let input_data = np_array email_list in
      case gnb_predict input_data of
        Inl e \<Rightarrow> Inl e
      | Inr predictions \<Rightarrow>
          Inr (map (\<lambda>pred. if pred = 1 then ''Spam'' else ''Not Spam'') predictions))"

text \<open>
  A stand-in for a trained classifier, used to run the functions on concrete input: one
  label per row, 1 when the word count exceeds 300.
\<close>

definition threshold_model :: "int list list \<Rightarrow> error + int list" where
  "threshold_model rows = Inr (map (\<lambda>r. if 300 < sum_list (take 1 r) then 1 else 0) rows)"

section \<open>Tables: pandas data frames and numpy arrays\<close>

text \<open>
  A table is a list of labelled columns. A pandas DataFrame labels its columns with
  strings; a two-dimensional numpy array labels them with their position; a Series or a
  one-dimensional array is a table of one column.
\<close>

type_synonym ('l, 'a) table = "('l \<times> 'a list) list"
type_synonym 'a frame = "(string, 'a) table"
type_synonym 'a ndarray = "(nat, 'a) table"

definition n_rows :: "('l, 'a) table \<Rightarrow> nat" where
  "n_rows t = (case t of [] \<Rightarrow> 0 | (l, c) # _ \<Rightarrow> length c)"

text \<open>Every column of the table has \<open>n\<close> rows.\<close>

definition rows_are :: "nat \<Rightarrow> ('l, 'a) table \<Rightarrow> bool" where
  "rows_are n t = list_all (\<lambda>c. length (snd c) = n) t"

text \<open>
  Feature table and target table agree: every feature column and every target column has
  the number of rows of the target.
\<close>

definition aligned :: "('l, 'a) table \<Rightarrow> ('k, 'b) table \<Rightarrow> bool" where
  "aligned X y = (rows_are (n_rows y) X \<and> rows_are (n_rows y) y)"

text \<open>
  \<^verbatim>\<open>pd.DataFrame({...})\<close>: pandas raises ValueError ("All arrays must be of the same
  length") when the columns differ in length.
\<close>

definition DataFrame :: "(string \<times> 'a list) list \<Rightarrow> error + 'a frame" where
  "DataFrame columns =
     (if rows_are (n_rows columns) columns then Inr columns else Inl ValueError)"

text \<open>\<^verbatim>\<open>df[name]\<close> and \<^verbatim>\<open>df[[name, ...]]\<close>: KeyError for a missing column.\<close>

definition get_column :: "'a frame \<Rightarrow> string \<Rightarrow> error + 'a list" where
  "get_column df name = (case map_of df name of None \<Rightarrow> Inl KeyError | Some c \<Rightarrow> Inr c)"

fun get_columns :: "'a frame \<Rightarrow> string list \<Rightarrow> error + 'a frame" where
  "get_columns df [] = Inr []"
| "get_columns df (name # names) =
     (case get_column df name of
        Inl e \<Rightarrow> Inl e
      | Inr c \<Rightarrow> (case get_columns df names of
                   Inl e \<Rightarrow> Inl e
                 | Inr rest \<Rightarrow> Inr ((name, c) # rest)))"

text \<open>\<^verbatim>\<open>df[name]\<close> as a Series: a table of one column.\<close>

definition get_series :: "'a frame \<Rightarrow> string \<Rightarrow> error + 'a frame" where
  "get_series df name = get_columns df [name]"

text \<open>\<^verbatim>\<open>.values\<close>, and the array a transformer returns: columns by position.\<close>

definition as_array :: "'a list list \<Rightarrow> 'a ndarray" where
  "as_array cols = zip [0..<length cols] cols"

definition values_of :: "('l, 'a) table \<Rightarrow> 'a ndarray" where
  "values_of t = as_array (map snd t)"

text \<open>Row selection by index list, as \<^verbatim>\<open>train_test_split\<close> does on each of its arrays.\<close>

definition take_rows :: "nat list \<Rightarrow> ('l, 'a) table \<Rightarrow> ('l, 'a) table" where
  "take_rows idx t = map (\<lambda>(l, c). (l, map (\<lambda>i. c ! i) idx)) t"

section \<open>numpy\<close>

text \<open>
  The global random generator of numpy is not part of the repository: its state is a
  type parameter and its sampling functions are the fields of a record.
  \<open>random_seed np k\<close> is the state that \<^verbatim>\<open>np.random.seed(k)\<close> installs, whatever the
  state was before. Each sampler returns the drawn array and the next state.
\<close>

record 's numpy_random =
  random_seed :: "nat \<Rightarrow> 's"
  random_uniform :: "real \<Rightarrow> real \<Rightarrow> nat \<Rightarrow> 's \<Rightarrow> real list \<times> 's"
  random_normal :: "real \<Rightarrow> real \<Rightarrow> nat \<Rightarrow> 's \<Rightarrow> real list \<times> 's"
  random_randint :: "int \<Rightarrow> int \<Rightarrow> nat \<Rightarrow> 's \<Rightarrow> int list \<times> 's"
  random_choice :: "int list \<Rightarrow> real list \<Rightarrow> nat \<Rightarrow> 's \<Rightarrow> int list \<times> 's"

text \<open>
  What numpy documents for its samplers: \<open>size\<close> elements are drawn, uniform variates
  lie between \<open>low\<close> and \<open>high\<close>, integers in \<open>[low, high)\<close>, choices among the given
  values.
\<close>

definition numpy_contract :: "'s numpy_random \<Rightarrow> bool" where
  "numpy_contract np =
     ((\<forall>lo hi n s. length (fst (random_uniform np lo hi n s)) = n \<and>
         (lo \<le> hi \<longrightarrow> (\<forall>x \<in> set (fst (random_uniform np lo hi n s)). lo \<le> x \<and> x \<le> hi))) \<and>
      (\<forall>loc sc n s. length (fst (random_normal np loc sc n s)) = n) \<and>
      (\<forall>lo hi n s. length (fst (random_randint np lo hi n s)) = n \<and>
         (lo < hi \<longrightarrow> (\<forall>x \<in> set (fst (random_randint np lo hi n s)). lo \<le> x \<and> x < hi))) \<and>
      (\<forall>xs p n s. length (fst (random_choice np xs p n s)) = n \<and>
         (xs \<noteq> [] \<longrightarrow> set (fst (random_choice np xs p n s)) \<subseteq> set xs)))"

text \<open>\<^verbatim>\<open>np.random.seed(k)\<close> as a statement: the old state is discarded.\<close>

definition np_random_seed :: "'s numpy_random \<Rightarrow> nat \<Rightarrow> 's \<Rightarrow> 's" where
  "np_random_seed np k s = random_seed np k"

text \<open>\<^verbatim>\<open>np.cumsum\<close>: running sums, left to right.\<close>

fun cumsum_from :: "real \<Rightarrow> real list \<Rightarrow> real list" where
  "cumsum_from acc [] = []"
| "cumsum_from acc (x # xs) = (acc + x) # cumsum_from (acc + x) xs"

definition cumsum :: "real list \<Rightarrow> real list" where
  "cumsum xs = cumsum_from 0 xs"

text \<open>Arithmetic of a scalar with an array: \<^verbatim>\<open>k * xs\<close> and \<^verbatim>\<open>k + xs\<close>.\<close>

definition np_scale :: "real \<Rightarrow> real list \<Rightarrow> real list" where
  "np_scale k xs = map (\<lambda>x. k * x) xs"

definition np_shift :: "real \<Rightarrow> real list \<Rightarrow> real list" where
  "np_shift k xs = map (\<lambda>x. k + x) xs"

text \<open>
  An elementwise binary operation on two one-dimensional arrays: equal shapes combine
  pointwise, an array of one element is broadcast, any other pair of shapes raises
  ValueError.
\<close>

definition np_elementwise :: "('a \<Rightarrow> 'b \<Rightarrow> 'c) \<Rightarrow> 'a list \<Rightarrow> 'b list \<Rightarrow> error + 'c list" where
  "np_elementwise f xs ys =
     (if length xs = length ys then Inr (map2 f xs ys)
      else (case (xs, ys) of
              ([x], _) \<Rightarrow> Inr (map (f x) ys)
            | (_, [y]) \<Rightarrow> Inr (map (\<lambda>x. f x y) xs)
            | _ \<Rightarrow> Inl ValueError))"

text \<open>
  A small deterministic generator on which the notebooks can be run: the state counts
  the variates drawn so far.
\<close>

definition counter_random :: "nat numpy_random" where
  "counter_random =
     \<lparr> random_seed = (\<lambda>k. k),
       random_uniform = (\<lambda>lo hi n s.
          (map (\<lambda>i. if even (s + i) then lo else hi) [0..<n], s + n)),
       random_normal = (\<lambda>loc sc n s. (map (\<lambda>i. loc + sc * real (s + i)) [0..<n], s + n)),
       random_randint = (\<lambda>lo hi n s. (map (\<lambda>i. lo) [0..<n], s + n)),
       random_choice = (\<lambda>xs p n s.
          (map (\<lambda>i. case xs of [] \<Rightarrow> 0 | x # _ \<Rightarrow> x) [0..<n], s + n)) \<rparr>"

section \<open>scikit-learn preprocessing and splitting\<close>

text \<open>
  The library functions the notebooks call before fitting. \<open>standard_scale\<close> is what
  \<^verbatim>\<open>StandardScaler().fit_transform\<close> does to one column; \<open>split_indices n test_size
  random_state\<close> gives the row indices \<^verbatim>\<open>train_test_split\<close> puts in the training and
  in the test part of \<open>n\<close> rows.
\<close>

record sklearn_prep =
  standard_scale :: "real list \<Rightarrow> real list"
  split_indices :: "nat \<Rightarrow> real \<Rightarrow> nat \<Rightarrow> nat list \<times> nat list"

text \<open>
  A scaled column keeps its length, and the split indices of \<open>n\<close> rows are row numbers
  below \<open>n\<close>.
\<close>

definition sklearn_prep_contract :: "sklearn_prep \<Rightarrow> bool" where
  "sklearn_prep_contract sk =
     ((\<forall>c. length (standard_scale sk c) = length c) \<and>
      (\<forall>n t r. list_all (\<lambda>i. i < n)
         (fst (split_indices sk n t r) @ snd (split_indices sk n t r))))"

definition fit_transform :: "sklearn_prep \<Rightarrow> ('l, real) table \<Rightarrow> real ndarray" where
  "fit_transform sk X = as_array (map (\<lambda>(l, c). standard_scale sk c) X)"

text \<open>
  \<^verbatim>\<open>train_test_split(X, y, test_size=t, random_state=r)\<close>: ValueError ("Found input
  variables with inconsistent numbers of samples") unless X and y have the same number of
  rows; otherwise the same rows are taken from both. Reading a row that the arrays do not
  have raises IndexError.
\<close>

definition train_test_split ::
  "sklearn_prep \<Rightarrow> ('l, 'a) table \<Rightarrow> ('k, 'b) table \<Rightarrow> real \<Rightarrow> nat \<Rightarrow>
     error + (('l, 'a) table \<times> ('l, 'a) table \<times> ('k, 'b) table \<times> ('k, 'b) table)" where
  "train_test_split sk X y test_size random_state =
     (if n_rows X \<noteq> n_rows y then Inl ValueError
      else (let (train, test) = split_indices sk (n_rows X) test_size random_state
            in if list_all (\<lambda>i. i < n_rows X) (train @ test)
               then Inr (take_rows train X, take_rows test X,
                         take_rows train y, take_rows test y)
               else Inl IndexError))"

definition identity_prep :: sklearn_prep where
  "identity_prep =
     \<lparr> standard_scale = (\<lambda>c. c),
       split_indices = (\<lambda>n t r. ([0..<n - n div 5], [n - n div 5..<n])) \<rparr>"

section \<open>PID notebooks: data simulation and feature selection\<close>

text \<open>
  The simulation cell is the same in the boosting notebook and in the random-forest
  notebook:
  \<^verbatim>\<open>
  np.random.seed(42)
  n_samples = 1000
  error = np.random.uniform(-2, 2, n_samples)
  derivative = np.random.uniform(-0.5, 0.5, n_samples)
  integral = np.cumsum(error)
  setpoint = 25 + np.random.normal(0, 0.5, n_samples)
  Kp = 2 + 0.5 * error + 0.1 * derivative
  Ki = 0.1 + 0.05 * integral
  Kd = 0.02 + 0.01 * derivative
  data = pd.DataFrame({'Error': error, 'Derivative': derivative, 'Integral': integral,
                       'Setpoint': setpoint, 'Kp': Kp, 'Ki': Ki, 'Kd': Kd})
  \<close>
  numpy's float64 arithmetic is modelled by the reals. \<open>s0\<close> is the state of the global
  generator when the cell starts.
\<close>

definition n_samples :: nat where
  "n_samples = 1000"

definition pid_simulate :: "'s numpy_random \<Rightarrow> 's \<Rightarrow> error + real frame" where
  "pid_simulate np s0 =
     (let s1 = np_random_seed np 42 s0;
          (error, s2) = random_uniform np (- 2) 2 n_samples s1;
          (derivative, s3) = random_uniform np (- 0.5) 0.5 n_samples s2;
          integral = cumsum error;
          (noise, s4) = random_normal np 0 0.5 n_samples s3;
          setpoint = np_shift 25 noise
      in bind_result
           (np_elementwise (+) (np_shift 2 (np_scale 0.5 error)) (np_scale 0.1 derivative))
           (\<lambda>Kp.
              let Ki = np_shift 0.1 (np_scale 0.05 integral);
                  Kd = np_shift 0.02 (np_scale 0.01 derivative)
              in DataFrame
                   [(''Error'', error), (''Derivative'', derivative), (''Integral'', integral),
                    (''Setpoint'', setpoint), (''Kp'', Kp), (''Ki'', Ki), (''Kd'', Kd)]))"

text \<open>
  \<^verbatim>\<open>
  X = data[['Error', 'Derivative', 'Integral', 'Setpoint']]
  y = data[['Kp', 'Ki', 'Kd']]
  scaler = StandardScaler()
  X_scaled = scaler.fit_transform(X)
  X_train, X_test, y_train, y_test = train_test_split(X_scaled, y, test_size=0.2, random_state=42)
  \<close>
  The boosting notebook writes \<^verbatim>\<open>data[['Kp', 'Ki', 'Kd']]\<close> in place of \<open>y\<close>.
\<close>

definition pid_X :: "real frame \<Rightarrow> error + real frame" where
  "pid_X data = get_columns data [''Error'', ''Derivative'', ''Integral'', ''Setpoint'']"

definition pid_y :: "real frame \<Rightarrow> error + real frame" where
  "pid_y data = get_columns data [''Kp'', ''Ki'', ''Kd'']"

definition pid_X_scaled :: "sklearn_prep \<Rightarrow> real frame \<Rightarrow> error + real ndarray" where
  "pid_X_scaled sk data = bind_result (pid_X data) (\<lambda>X. Inr (fit_transform sk X))"

definition pid_split ::
  "sklearn_prep \<Rightarrow> real frame \<Rightarrow>
     error + (real ndarray \<times> real ndarray \<times> real frame \<times> real frame)" where
  "pid_split sk data =
     bind_result (pid_X_scaled sk data) (\<lambda>X_scaled.
     bind_result (pid_y data) (\<lambda>y.
       train_test_split sk X_scaled y 0.2 42))"

section \<open>PID notebooks: the fit and predict calls\<close>

text \<open>
  The estimators are library classes. A notebook's calls of \<^verbatim>\<open>.fit\<close> and
  \<^verbatim>\<open>.predict\<close> are listed in source order with the arguments they receive: the
  variable holding the model, the estimator it was constructed as, and the arrays passed.
\<close>

datatype estimator =
    AdaBoostRegressor nat nat
  | GradientBoostingRegressor nat nat
  | XGBRegressor nat nat
  | DecisionTreeRegressor nat
  | RandomForestRegressor nat nat

type_synonym fit_call = "string \<times> estimator \<times> real ndarray \<times> real frame"
type_synonym predict_call = "string \<times> real ndarray"

text \<open>
  Boosting notebook: nine models, \<^verbatim>\<open>AdaBoostRegressor(n_estimators=100,
  random_state=42)\<close> and likewise for gradient boosting and XGBoost, each fitted with
  \<^verbatim>\<open>model.fit(X_train, y_train['Kp'])\<close> (or Ki, Kd) and used in
  \<^verbatim>\<open>model.predict(X_test)\<close>.
\<close>

definition pid_boosting_fit_calls :: "real ndarray \<Rightarrow> real frame \<Rightarrow> error + fit_call list" where
  "pid_boosting_fit_calls X_train y_train =
     bind_result (get_series y_train ''Kp'') (\<lambda>y_Kp.
     bind_result (get_series y_train ''Ki'') (\<lambda>y_Ki.
     bind_result (get_series y_train ''Kd'') (\<lambda>y_Kd.
       Inr [(''ada_model_kp'', AdaBoostRegressor 100 42, X_train, y_Kp),
            (''ada_model_ki'', AdaBoostRegressor 100 42, X_train, y_Ki),
            (''ada_model_kd'', AdaBoostRegressor 100 42, X_train, y_Kd),
            (''gb_model_kp'', GradientBoostingRegressor 100 42, X_train, y_Kp),
            (''gb_model_ki'', GradientBoostingRegressor 100 42, X_train, y_Ki),
            (''gb_model_kd'', GradientBoostingRegressor 100 42, X_train, y_Kd),
            (''xg_model_kp'', XGBRegressor 100 42, X_train, y_Kp),
            (''xg_model_ki'', XGBRegressor 100 42, X_train, y_Ki),
            (''xg_model_kd'', XGBRegressor 100 42, X_train, y_Kd)])))"

definition pid_boosting_predict_calls :: "real ndarray \<Rightarrow> predict_call list" where
  "pid_boosting_predict_calls X_test =
     [(''ada_model_kp'', X_test), (''ada_model_ki'', X_test), (''ada_model_kd'', X_test),
      (''gb_model_kp'', X_test), (''gb_model_ki'', X_test), (''gb_model_kd'', X_test),
      (''xg_model_kp'', X_test), (''xg_model_ki'', X_test), (''xg_model_kd'', X_test)]"

text \<open>
  Random-forest notebook: \<^verbatim>\<open>dt_model.fit(X_train, y_train)\<close>,
  \<^verbatim>\<open>rf_model.fit(X_train, y_train)\<close> on all three targets at once, then
  \<^verbatim>\<open>dt_model.predict(X_test)\<close> and \<^verbatim>\<open>rf_model.predict(X_test)\<close>.
\<close>

definition pid_forest_fit_calls :: "real ndarray \<Rightarrow> real frame \<Rightarrow> error + fit_call list" where
  "pid_forest_fit_calls X_train y_train =
     Inr [(''dt_model'', DecisionTreeRegressor 42, X_train, y_train),
          (''rf_model'', RandomForestRegressor 100 42, X_train, y_train)]"

definition pid_forest_predict_calls :: "real ndarray \<Rightarrow> predict_call list" where
  "pid_forest_predict_calls X_test = [(''dt_model'', X_test), (''rf_model'', X_test)]"

text \<open>Each notebook from the simulation to its fit and predict calls.\<close>

definition pid_notebook ::
  "(real ndarray \<Rightarrow> real frame \<Rightarrow> error + fit_call list) \<Rightarrow>
   (real ndarray \<Rightarrow> predict_call list) \<Rightarrow>
   's numpy_random \<Rightarrow> sklearn_prep \<Rightarrow> 's \<Rightarrow> error + (fit_call list \<times> predict_call list)" where
  "pid_notebook fit_calls predict_calls np sk s0 =
     bind_result (pid_simulate np s0) (\<lambda>data.
     bind_result (pid_split sk data) (\<lambda>(X_train, X_test, y_train, y_test).
     bind_result (fit_calls X_train y_train) (\<lambda>fits.
       Inr (fits, predict_calls X_test))))"

definition pid_boosting_notebook ::
  "'s numpy_random \<Rightarrow> sklearn_prep \<Rightarrow> 's \<Rightarrow> error + (fit_call list \<times> predict_call list)" where
  "pid_boosting_notebook = pid_notebook pid_boosting_fit_calls pid_boosting_predict_calls"

definition pid_forest_notebook ::
  "'s numpy_random \<Rightarrow> sklearn_prep \<Rightarrow> 's \<Rightarrow> error + (fit_call list \<times> predict_call list)" where
  "pid_forest_notebook = pid_notebook pid_forest_fit_calls pid_forest_predict_calls"

section \<open>Frames with columns of different types\<close>

text \<open>
  A pandas column holds integers, floats, strings or timestamps, and a float column may
  hold NaN. A timestamp is the number of days since 2020-01-01.
\<close>

datatype cell = IntCell int | FloatCell real | StrCell string | DayCell int | NaNCell

text \<open>
  Conversion of a column to a float array, as an estimator or a scaler does with its
  input: ValueError for a string or a timestamp. NaN never reaches a conversion in the
  notebooks; the model rejects it as the estimators do.
\<close>

fun float_of :: "cell \<Rightarrow> real option" where
  "float_of (IntCell i) = Some (of_int i)"
| "float_of (FloatCell x) = Some x"
| "float_of (StrCell s) = None"
| "float_of (DayCell d) = None"
| "float_of NaNCell = None"

fun floats_of :: "cell list \<Rightarrow> error + real list" where
  "floats_of [] = Inr []"
| "floats_of (c # cs) =
     (case float_of c of
        None \<Rightarrow> Inl ValueError
      | Some x \<Rightarrow> (case floats_of cs of Inl e \<Rightarrow> Inl e | Inr xs \<Rightarrow> Inr (x # xs)))"

fun float_table :: "('l, cell) table \<Rightarrow> error + ('l, real) table" where
  "float_table [] = Inr []"
| "float_table ((l, c) # rest) =
     (case floats_of c of
        Inl e \<Rightarrow> Inl e
      | Inr xs \<Rightarrow> (case float_table rest of Inl e \<Rightarrow> Inl e | Inr t \<Rightarrow> Inr ((l, xs) # t)))"

text \<open>
  \<^verbatim>\<open>df[name] = values\<close>: the column is replaced in place or appended; pandas raises
  ValueError when the length of the values differs from the number of rows of a frame
  that has columns.
\<close>

fun update_column :: "string \<Rightarrow> 'a list \<Rightarrow> 'a frame \<Rightarrow> 'a frame" where
  "update_column name vals [] = [(name, vals)]"
| "update_column name vals ((k, c) # rest) =
     (if k = name then (k, vals) # rest else (k, c) # update_column name vals rest)"

definition set_column :: "'a frame \<Rightarrow> string \<Rightarrow> 'a list \<Rightarrow> error + 'a frame" where
  "set_column df name vals =
     (if df \<noteq> [] \<and> length vals \<noteq> n_rows df then Inl ValueError
      else Inr (update_column name vals df))"

text \<open>\<^verbatim>\<open>df.drop(name, axis=1)\<close>: KeyError for a missing column.\<close>

definition drop_column :: "'a frame \<Rightarrow> string \<Rightarrow> error + 'a frame" where
  "drop_column df name =
     (if name \<in> set (map fst df) then Inr (filter (\<lambda>c. fst c \<noteq> name) df) else Inl KeyError)"

text \<open>Array plus scalar, \<^verbatim>\<open>xs + k\<close>, and \<^verbatim>\<open>X.flatten()\<close> in row-major order.\<close>

definition np_plus :: "real list \<Rightarrow> real \<Rightarrow> real list" where
  "np_plus xs k = map (\<lambda>x. x + k) xs"

definition np_flatten :: "'a ndarray \<Rightarrow> 'a list" where
  "np_flatten X = concat (transpose (map snd X))"

section \<open>Library functions that produce or reshape data\<close>

text \<open>
  \<open>make_classification n_samples n_features n_informative n_classes random_state\<close>,
  \<open>load_iris\<close>, \<open>CountVectorizer().fit_transform\<close> (which raises on an empty
  vocabulary) and \<open>PolynomialFeatures(degree).fit_transform\<close> belong to scikit-learn;
  \<open>Series.interpolate\<close>, which fills the missing values of a column, to pandas.
\<close>

record data_library =
  make_classification :: "nat \<Rightarrow> nat \<Rightarrow> nat \<Rightarrow> nat \<Rightarrow> nat \<Rightarrow> real ndarray \<times> int list"
  load_iris :: "real ndarray \<times> int list"
  count_vectorizer :: "string list \<Rightarrow> error + int ndarray"
  polynomial_features :: "nat \<Rightarrow> real ndarray \<Rightarrow> real ndarray"
  interpolate :: "cell list \<Rightarrow> cell list"

text \<open>
  Their documented shapes: \<open>n_samples\<close> rows and \<open>n_features\<close> columns with one label
  per row; as many iris labels as rows; one row per document; the rows of the input.
  Every returned array has at least one column. Interpolation keeps the length of a
  column and leaves a column without NaN as it is.
\<close>

definition data_library_contract :: "data_library \<Rightarrow> bool" where
  "data_library_contract lib =
     ((\<forall>n f i c r. 0 < f \<longrightarrow>
         length (fst (make_classification lib n f i c r)) = f \<and>
         rows_are n (fst (make_classification lib n f i c r)) \<and>
         length (snd (make_classification lib n f i c r)) = n) \<and>
      (fst (load_iris lib) \<noteq> [] \<and>
         rows_are (length (snd (load_iris lib))) (fst (load_iris lib))) \<and>
      (\<forall>docs M. count_vectorizer lib docs = Inr M \<longrightarrow> M \<noteq> [] \<and> rows_are (length docs) M) \<and>
      (\<forall>d X. polynomial_features lib d X \<noteq> [] \<and>
         rows_are (n_rows X) (polynomial_features lib d X)) \<and>
      (\<forall>col. length (interpolate lib col) = length col \<and>
         (NaNCell \<notin> set col \<longrightarrow> interpolate lib col = col)))"

text \<open>A library instance on which the notebooks can be run.\<close>

definition constant_library :: data_library where
  "constant_library =
     \<lparr> make_classification = (\<lambda>n f i c r.
          (as_array (map (\<lambda>j. map (\<lambda>k. real (r + j + k)) [0..<n]) [0..<f]),
           map (\<lambda>k. int (k mod c)) [0..<n])),
       load_iris = (as_array [[5.1, 7.0, 6.3], [3.5, 3.2, 3.3], [1.4, 4.7, 6.0], [0.2, 1.4, 2.5]],
                    [0, 1, 2]),
       count_vectorizer = (\<lambda>docs.
          if docs = [] then Inl ValueError else Inr (as_array [map (\<lambda>d. int (length d)) docs])),
       polynomial_features = (\<lambda>d X.
          as_array (map (\<lambda>k. map (\<lambda>i. (\<Sum>c \<leftarrow> map snd X. c ! i) ^ k) [0..<n_rows X]) [0..<Suc d])),
       interpolate = (\<lambda>col. col) \<rparr>"

section \<open>Spam filter notebooks: the data set\<close>

text \<open>
  The same cells in the Gaussian Naive Bayes notebook and in its checkpoint copy:
  \<^verbatim>\<open>
  data = {'EmailID': np.arange(1, 21), 'WordCount': [...], 'CapFrequency': [...], 'Spam': [...]}
  df = pd.DataFrame(data)
  X = df[['WordCount', 'CapFrequency']]
  y = df['Spam']
  X_train, X_test, y_train, y_test = train_test_split(X, y, test_size=0.2, random_state=42)
  \<close>
\<close>

definition spam_data :: "(string \<times> int list) list" where
  "spam_data =
     [(''EmailID'', [1..20]),
      (''WordCount'', [350, 200, 500, 150, 300, 450, 600, 250, 550, 400,
                       700, 100, 450, 370, 650, 230, 510, 330, 600, 220]),
      (''CapFrequency'', [2, 1, 3, 0, 4, 2, 3, 1, 3, 0, 5, 0, 2, 3, 4, 1, 3, 2, 4, 1]),
      (''Spam'', [1, 0, 1, 0, 1, 0, 1, 0, 1, 0, 1, 0, 1, 0, 1, 0, 1, 0, 1, 0])]"

definition spam_inputs :: "int frame \<Rightarrow> error + (int frame \<times> int frame)" where
  "spam_inputs df =
     bind_result (get_columns df [''WordCount'', ''CapFrequency'']) (\<lambda>X.
     bind_result (get_series df ''Spam'') (\<lambda>y. Inr (X, y)))"

definition spam_split ::
  "sklearn_prep \<Rightarrow> error + (int frame \<times> int frame \<times> int frame \<times> int frame)" where
  "spam_split sk =
     bind_result (DataFrame spam_data) (\<lambda>df.
     bind_result (spam_inputs df) (\<lambda>(X, y).
       train_test_split sk X y 0.2 42))"

section \<open>Loan default notebook: the data set\<close>

text \<open>
  \<^verbatim>\<open>
  np.random.seed(42)
  n_samples = 1000
  income = np.random.randint(30000, 150000, size=n_samples)
  age = np.random.randint(18, 70, size=n_samples)
  credit_score = np.random.randint(600, 800, size=n_samples)
  loan_default = np.random.choice([0, 1], size=n_samples, p=[0.7, 0.3])
  df = pd.DataFrame({'Income': income, 'Age': age, 'Credit Score': credit_score,
                     'Loan Default': loan_default})
  X = df[['Income', 'Age', 'Credit Score']]
  y = df['Loan Default']
  X_train, X_test, y_train, y_test = train_test_split(X, y, test_size=0.2, random_state=42)
  \<close>
\<close>

definition loan_generate :: "'s numpy_random \<Rightarrow> 's \<Rightarrow> error + int frame" where
  "loan_generate np s0 =
     (let s1 = np_random_seed np 42 s0;
          (income, s2) = random_randint np 30000 150000 n_samples s1;
          (age, s3) = random_randint np 18 70 n_samples s2;
          (credit_score, s4) = random_randint np 600 800 n_samples s3;
          (loan_default, s5) = random_choice np [0, 1] [0.7, 0.3] n_samples s4
      in DataFrame
           [(''Income'', income), (''Age'', age), (''Credit Score'', credit_score),
            (''Loan Default'', loan_default)])"

definition loan_inputs :: "int frame \<Rightarrow> error + (int frame \<times> int frame)" where
  "loan_inputs df =
     bind_result (get_columns df [''Income'', ''Age'', ''Credit Score'']) (\<lambda>X.
     bind_result (get_series df ''Loan Default'') (\<lambda>y. Inr (X, y)))"

definition loan_split ::
  "'s numpy_random \<Rightarrow> sklearn_prep \<Rightarrow> 's \<Rightarrow>
     error + (int frame \<times> int frame \<times> int frame \<times> int frame)" where
  "loan_split np sk s0 =
     bind_result (loan_generate np s0) (\<lambda>df.
     bind_result (loan_inputs df) (\<lambda>(X, y).
       train_test_split sk X y 0.2 42))"

section \<open>House price notebook: the data set\<close>

text \<open>
  \<^verbatim>\<open>
  X = np.array([1500, 1800, 2400, 3000, 1200]).reshape(-1, 1)
  y = np.array([350000, 450000, 500000, 600000, 250000])
  \<close>
  and, in the next cell, replacing both:
  \<^verbatim>\<open>
  np.random.seed(42)
  X = np.random.uniform(1000, 4000, 1000).reshape(-1, 1)
  y = 100 * X.flatten() + 50000 + np.random.normal(0, 50000, 1000)
  X_train, X_test, y_train, y_test = train_test_split(X, y, test_size=0.2, random_state=42)
  \<close>
\<close>

definition house_small :: "real ndarray \<times> real ndarray" where
  "house_small =
     (as_array [[1500, 1800, 2400, 3000, 1200]],
      as_array [[350000, 450000, 500000, 600000, 250000]])"

definition house_generate ::
  "'s numpy_random \<Rightarrow> 's \<Rightarrow> error + (real ndarray \<times> real ndarray)" where
  "house_generate np s0 =
     (let s1 = np_random_seed np 42 s0;
          (sqft, s2) = random_uniform np 1000 4000 1000 s1;
          X = as_array [sqft];
          (noise, s3) = random_normal np 0 50000 1000 s2
      in bind_result
           (np_elementwise (+) (np_plus (np_scale 100 (np_flatten X)) 50000) noise)
           (\<lambda>y. Inr (X, as_array [y])))"

definition house_split ::
  "'s numpy_random \<Rightarrow> sklearn_prep \<Rightarrow> 's \<Rightarrow>
     error + (real ndarray \<times> real ndarray \<times> real ndarray \<times> real ndarray)" where
  "house_split np sk s0 =
     bind_result (house_generate np s0) (\<lambda>(X, y).
       train_test_split sk X y 0.2 42)"

section \<open>Fruit classification notebook: the data set\<close>

text \<open>
  \<^verbatim>\<open>
  np.random.seed(42)
  feature1 = np.random.randint(100, 300, size=100)
  feature2 = np.random.randint(1, 10, size=100)
  labels = np.where((feature1 > 200) & (feature2 > 5), 'Apple', 'Orange')
  df = pd.DataFrame({'Feature1': feature1, 'Feature2': feature2, 'Label': labels})
  X = df[['Feature1', 'Feature2']].values
  y = df['Label'].values
  X_train, X_test, y_train, y_test = train_test_split(X, y, test_size=0.3, random_state=42)
  \<close>
\<close>

definition fruit_generate :: "'s numpy_random \<Rightarrow> 's \<Rightarrow> error + cell frame" where
  "fruit_generate np s0 =
     (let s1 = np_random_seed np 42 s0;
          (feature1, s2) = random_randint np 100 300 100 s1;
          (feature2, s3) = random_randint np 1 10 100 s2
      in bind_result
           (np_elementwise (\<lambda>a b. if 200 < a \<and> 5 < b then ''Apple'' else ''Orange'')
              feature1 feature2)
           (\<lambda>labels.
              DataFrame
                [(''Feature1'', map IntCell feature1), (''Feature2'', map IntCell feature2),
                 (''Label'', map StrCell labels)]))"

definition fruit_inputs :: "cell frame \<Rightarrow> error + (cell ndarray \<times> cell ndarray)" where
  "fruit_inputs df =
     bind_result (get_columns df [''Feature1'', ''Feature2'']) (\<lambda>X.
     bind_result (get_series df ''Label'') (\<lambda>y. Inr (values_of X, values_of y)))"

definition fruit_split ::
  "'s numpy_random \<Rightarrow> sklearn_prep \<Rightarrow> 's \<Rightarrow>
     error + (cell ndarray \<times> cell ndarray \<times> cell ndarray \<times> cell ndarray)" where
  "fruit_split np sk s0 =
     bind_result (fruit_generate np s0) (\<lambda>df.
     bind_result (fruit_inputs df) (\<lambda>(X, y).
       train_test_split sk X y 0.3 42))"

section \<open>Wearable sensor notebook: the data set\<close>

text \<open>
  A first cell builds a frame of ten literal rows and takes
  \<^verbatim>\<open>X = df.drop('label', axis=1)\<close>, \<^verbatim>\<open>y = df['label']\<close>; the next cell replaces
  \<open>df\<close>, \<open>X\<close> and \<open>y\<close> by a simulated frame of 1000 rows:
  \<^verbatim>\<open>
  np.random.seed(42)
  heart_rate = np.random.randint(60, 100, 1000)
  steps = np.random.randint(500, 2500, 1000)
  temperature = np.random.uniform(36.0, 37.5, 1000)
  activity_level = np.random.randint(1, 6, 1000)
  sleep_duration = np.random.randint(4, 9, 1000)
  label = np.random.choice([0, 1], 1000, p=[0.7, 0.3])
  df = pd.DataFrame(data)
  X = df.drop('label', axis=1)
  y = df['label']
  X_scaled = scaler.fit_transform(X)
  X_train, X_test, y_train, y_test = train_test_split(X_scaled, y, test_size=0.1, random_state=42)
  \<close>
\<close>

definition wearable_small_data :: "(string \<times> cell list) list" where
  "wearable_small_data =
     [(''heart_rate'', map IntCell [72, 80, 78, 65, 85, 92, 68, 76, 77, 79]),
      (''steps'', map IntCell [1000, 1500, 1200, 800, 1800, 2000, 900, 1000, 1100, 1300]),
      (''temperature'',
         map FloatCell [36.5, 37.0, 36.8, 36.4, 37.1, 37.5, 36.6, 36.7, 36.9, 37.2]),
      (''activity_level'', map IntCell [1, 3, 2, 1, 4, 5, 1, 2, 3, 4]),
      (''sleep_duration'', map IntCell [7, 6, 7, 8, 5, 4, 8, 7, 6, 5]),
      (''label'', map IntCell [0, 1, 0, 0, 1, 1, 0, 0, 1, 0])]"

definition wearable_generate :: "'s numpy_random \<Rightarrow> 's \<Rightarrow> error + cell frame" where
  "wearable_generate np s0 =
     (let s1 = np_random_seed np 42 s0;
          (heart_rate, s2) = random_randint np 60 100 1000 s1;
          (steps, s3) = random_randint np 500 2500 1000 s2;
          (temperature, s4) = random_uniform np 36.0 37.5 1000 s3;
          (activity_level, s5) = random_randint np 1 6 1000 s4;
          (sleep_duration, s6) = random_randint np 4 9 1000 s5;
          (label, s7) = random_choice np [0, 1] [0.7, 0.3] 1000 s6
      in DataFrame
           [(''heart_rate'', map IntCell heart_rate), (''steps'', map IntCell steps),
            (''temperature'', map FloatCell temperature),
            (''activity_level'', map IntCell activity_level),
            (''sleep_duration'', map IntCell sleep_duration),
            (''label'', map IntCell label)])"

definition wearable_features :: "cell frame \<Rightarrow> error + (cell frame \<times> cell frame)" where
  "wearable_features df =
     bind_result (drop_column df ''label'') (\<lambda>X.
     bind_result (get_series df ''label'') (\<lambda>y. Inr (X, y)))"

definition wearable_inputs ::
  "sklearn_prep \<Rightarrow> cell frame \<Rightarrow> error + (real ndarray \<times> cell frame)" where
  "wearable_inputs sk df =
     bind_result (wearable_features df) (\<lambda>(X, y).
     bind_result (float_table X) (\<lambda>X_float.
       Inr (fit_transform sk X_float, y)))"

definition wearable_split ::
  "'s numpy_random \<Rightarrow> sklearn_prep \<Rightarrow> 's \<Rightarrow>
     error + (real ndarray \<times> real ndarray \<times> cell frame \<times> cell frame)" where
  "wearable_split np sk s0 =
     bind_result (wearable_generate np s0) (\<lambda>df.
     bind_result (wearable_inputs sk df) (\<lambda>(X_scaled, y).
       train_test_split sk X_scaled y 0.1 42))"

section \<open>Stock price notebook: the data set\<close>

text \<open>
  \<^verbatim>\<open>
  initial_price = 100
  volatility = 1
  n_days = 500
  daily_returns = np.random.normal(loc=0, scale=volatility, size=n_days)
  stock_prices = initial_price + np.cumsum(daily_returns)
  df = pd.DataFrame({'Date': pd.date_range(start="2020-01-01", periods=n_days, freq='D'),
                     'Stock Price': stock_prices})
  \<close>
  No seed is set: the draws depend on the state \<open>s0\<close> of the generator.
\<close>

definition initial_price :: real where
  "initial_price = 100"

definition volatility :: real where
  "volatility = 1"

definition n_days :: nat where
  "n_days = 500"

definition date_range :: "int \<Rightarrow> nat \<Rightarrow> cell list" where
  "date_range start periods = map (\<lambda>i. DayCell (start + int i)) [0..<periods]"

definition stock_generate :: "'s numpy_random \<Rightarrow> 's \<Rightarrow> error + cell frame" where
  "stock_generate np s0 =
     (let (daily_returns, s1) = random_normal np 0 volatility n_days s0;
          stock_prices = np_shift initial_price (cumsum daily_returns)
      in DataFrame
           [(''Date'', date_range 0 n_days), (''Stock Price'', map FloatCell stock_prices)])"

text \<open>
  \<^verbatim>\<open>
  df['Stock Price'].interpolate(inplace=True)
  df['Moving Average'] = df['Stock Price'].rolling(window=5).mean()
  scaler = StandardScaler()
  df['Date'] = (df['Date'] - df['Date'].min()).dt.days
  df[['Date', 'Stock Price']] = scaler.fit_transform(df[['Date', 'Stock Price']])
  \<close>
  The rolling mean of a window of 5 is NaN in the first four rows.
\<close>

definition stock_interpolate :: "data_library \<Rightarrow> cell frame \<Rightarrow> error + cell frame" where
  "stock_interpolate lib df =
     bind_result (get_column df ''Stock Price'') (\<lambda>price.
       set_column df ''Stock Price'' (interpolate lib price))"

definition rolling_mean :: "nat \<Rightarrow> real list \<Rightarrow> cell list" where
  "rolling_mean window xs =
     map (\<lambda>i. if Suc i < window then NaNCell
              else FloatCell (sum_list (take window (drop (Suc i - window) xs)) / real window))
       [0..<length xs]"

definition stock_moving_average :: "cell frame \<Rightarrow> error + cell frame" where
  "stock_moving_average df =
     bind_result (get_column df ''Stock Price'') (\<lambda>price.
     bind_result (floats_of price) (\<lambda>p.
       set_column df ''Moving Average'' (rolling_mean 5 p)))"

fun days_of :: "cell list \<Rightarrow> error + int list" where
  "days_of [] = Inr []"
| "days_of (DayCell d # cs) =
     (case days_of cs of Inl e \<Rightarrow> Inl e | Inr ds \<Rightarrow> Inr (d # ds))"
| "days_of (c # cs) = Inl TypeError"

definition days_since_min :: "cell list \<Rightarrow> error + cell list" where
  "days_since_min col =
     bind_result (days_of col) (\<lambda>ds. Inr (map (\<lambda>d. IntCell (d - Min (set ds))) ds))"

definition stock_date_to_days :: "cell frame \<Rightarrow> error + cell frame" where
  "stock_date_to_days df =
     bind_result (get_column df ''Date'') (\<lambda>date.
     bind_result (days_since_min date) (\<lambda>days.
       set_column df ''Date'' days))"

definition stock_normalize :: "sklearn_prep \<Rightarrow> cell frame \<Rightarrow> error + cell frame" where
  "stock_normalize sk df =
     bind_result (get_columns df [''Date'', ''Stock Price'']) (\<lambda>selected.
     bind_result (float_table selected) (\<lambda>numeric.
       (case fit_transform sk numeric of
          [(i, date), (j, price)] \<Rightarrow>
            bind_result (set_column df ''Date'' (map FloatCell date)) (\<lambda>df1.
              set_column df1 ''Stock Price'' (map FloatCell price))
        | _ \<Rightarrow> Inl ValueError)))"

text \<open>
  \<^verbatim>\<open>
  poly_degree = 3
  poly = PolynomialFeatures(degree=poly_degree)
  X = df[['Date']].values
  y = df['Stock Price'].values
  X_poly = poly.fit_transform(X)
  X_train, X_test, y_train, y_test = train_test_split(X_poly, y, test_size=0.2, random_state=42)
  \<close>
\<close>

definition poly_degree :: nat where
  "poly_degree = 3"

definition stock_inputs ::
  "data_library \<Rightarrow> cell frame \<Rightarrow> error + (real ndarray \<times> real ndarray)" where
  "stock_inputs lib df =
     bind_result (get_columns df [''Date'']) (\<lambda>X_frame.
     bind_result (float_table X_frame) (\<lambda>X.
     bind_result (get_series df ''Stock Price'') (\<lambda>y_frame.
     bind_result (float_table y_frame) (\<lambda>y.
       Inr (polynomial_features lib poly_degree (values_of X), values_of y)))))"

definition stock_split ::
  "'s numpy_random \<Rightarrow> data_library \<Rightarrow> sklearn_prep \<Rightarrow> 's \<Rightarrow>
     error + (real ndarray \<times> real ndarray \<times> real ndarray \<times> real ndarray)" where
  "stock_split np lib sk s0 =
     bind_result (stock_generate np s0) (\<lambda>df0.
     bind_result (stock_interpolate lib df0) (\<lambda>df1.
     bind_result (stock_moving_average df1) (\<lambda>df2.
     bind_result (stock_date_to_days df2) (\<lambda>df3.
     bind_result (stock_normalize sk df3) (\<lambda>df4.
     bind_result (stock_inputs lib df4) (\<lambda>(X_poly, y).
       train_test_split sk X_poly y 0.2 42))))))"

section \<open>Fault detection notebook: the data set\<close>

text \<open>
  \<^verbatim>\<open>
  X, y = make_classification(n_samples=1000, n_features=20, n_informative=10, n_classes=2,
                             random_state=42)
  feature_names = [f'Feature_{i+1}' for i in range(X.shape[1])]
  df = pd.DataFrame(X, columns=feature_names)
  df['Target'] = y
  X_train, X_test, y_train, y_test = train_test_split(X, y, test_size=0.2, random_state=42)
  \<close>
  The generator is seeded through \<open>random_state\<close>; the global generator, in state
  \<open>s0\<close>, is not used.
\<close>

fun str_nat :: "nat \<Rightarrow> string" where
  "str_nat n =
     (if n < 10 then [char_of (48 + n)]
      else str_nat (n div 10) @ [char_of (48 + n mod 10)])"

declare str_nat.simps [simp del]

text \<open>
  \<^verbatim>\<open>pd.DataFrame(X, columns=names)\<close>: ValueError unless there is one name for each
  column of the array.
\<close>

definition DataFrame_of_array :: "real ndarray \<Rightarrow> string list \<Rightarrow> error + cell frame" where
  "DataFrame_of_array X names =
     (if length names \<noteq> length X then Inl ValueError
      else DataFrame (zip names (map (\<lambda>(i, c). map FloatCell c) X)))"

definition fault_generate ::
  "data_library \<Rightarrow> 's \<Rightarrow> error + (real ndarray \<times> int list \<times> cell frame)" where
  "fault_generate lib s0 =
     (let (X, y) = make_classification lib 1000 20 10 2 42;
          feature_names = map (\<lambda>i. ''Feature_'' @ str_nat (i + 1)) [0..<length X]
      in bind_result (DataFrame_of_array X feature_names) (\<lambda>df.
         bind_result (set_column df ''Target'' (map IntCell y)) (\<lambda>df'.
           Inr (X, y, df'))))"

definition fault_split ::
  "data_library \<Rightarrow> sklearn_prep \<Rightarrow> 's \<Rightarrow>
     error + (real ndarray \<times> real ndarray \<times> int ndarray \<times> int ndarray)" where
  "fault_split lib sk s0 =
     bind_result (fault_generate lib s0) (\<lambda>(X, y, df).
       train_test_split sk X (as_array [y]) 0.2 42)"

section \<open>Text spam notebook: the data set\<close>

text \<open>
  \<^verbatim>\<open>
  emails = [ ... four messages ... ]
  labels = [1, 0, 1, 0]
  vectorizer = CountVectorizer()
  X = vectorizer.fit_transform(emails)
  X_train, X_test, y_train, y_test = train_test_split(X, labels, test_size=0.2, random_state=42)
  \<close>
\<close>

definition emails :: "string list" where
  "emails =
     [''Congratulations, you won a prize! Claim your free gift now'',
      ''Your invoice for the purchase is attached'',
      ''Get rich quick with this limited offer'',
      ''Important update regarding your account'']"

definition labels :: "int list" where
  "labels = [1, 0, 1, 0]"

definition text_spam_inputs :: "data_library \<Rightarrow> error + (int ndarray \<times> int ndarray)" where
  "text_spam_inputs lib =
     bind_result (count_vectorizer lib emails) (\<lambda>X. Inr (X, as_array [labels]))"

definition text_spam_split ::
  "data_library \<Rightarrow> sklearn_prep \<Rightarrow>
     error + (int ndarray \<times> int ndarray \<times> int ndarray \<times> int ndarray)" where
  "text_spam_split lib sk =
     bind_result (text_spam_inputs lib) (\<lambda>(X, y).
       train_test_split sk X y 0.2 42)"

section \<open>Iris pruning notebook: the data set\<close>

text \<open>
  \<^verbatim>\<open>
  data = load_iris()
  X = data.data
  y = data.target
  X_train, X_test, y_train, y_test = train_test_split(X, y, test_size=0.2, random_state=42)
  \<close>
\<close>

definition iris_inputs :: "data_library \<Rightarrow> real ndarray \<times> int ndarray" where
  "iris_inputs lib = (let data = load_iris lib; X = fst data; y = snd data in (X, as_array [y]))"

definition iris_split ::
  "data_library \<Rightarrow> sklearn_prep \<Rightarrow>
     error + (real ndarray \<times> real ndarray \<times> int ndarray \<times> int ndarray)" where
  "iris_split lib sk = (case iris_inputs lib of (X, y) \<Rightarrow> train_test_split sk X y 0.2 42)"

section \<open>The notebooks as call sequences\<close>

text \<open>
  A notebook has no branch, no loop over cells and no exception handler: run top to bottom,
  it makes a fixed sequence of library calls. Each notebook is listed as that sequence, in
  source order: the calls that produce data (seeding, sampling, literal data, computed
  arrays, frame construction), preprocess, split, fit, predict, evaluate and plot. Column
  selection, printing and figure layout are not listed. A call carries the name of the
  variable or model it concerns.
\<close>

datatype stage = Generate | Preprocess | Split | Fit | Predict | Evaluate | Plot

datatype metric =
  R2 | Accuracy | ConfusionMatrix | ClassificationReport | MeanSquaredError
  | Precision | Recall | F1Score

datatype plot_kind = Scatter | Line | TreeDiagram

text \<open>What a plotted sequence holds.\<close>

datatype series = Truth | Predicted | Feature | Position

datatype call =
    NpRandomSeed nat
  | NpRandomDraw string
  | SeededGenerator string nat
  | LoadDataset string
  | LiteralData string
  | Compute string
  | MakeFrame string
  | Transform string string
  | TrainTestSplit
  | ModelFit string
  | ModelPredict string string
  | Metric metric string
  | ModelScore string
  | PlotCall plot_kind "series list"

fun stage_of :: "call \<Rightarrow> stage" where
  "stage_of (NpRandomSeed k) = Generate"
| "stage_of (NpRandomDraw v) = Generate"
| "stage_of (SeededGenerator f k) = Generate"
| "stage_of (LoadDataset f) = Generate"
| "stage_of (LiteralData v) = Generate"
| "stage_of (Compute v) = Generate"
| "stage_of (MakeFrame v) = Generate"
| "stage_of (Transform f v) = Preprocess"
| "stage_of TrainTestSplit = Split"
| "stage_of (ModelFit m) = Fit"
| "stage_of (ModelPredict m v) = Predict"
| "stage_of (Metric k v) = Evaluate"
| "stage_of (ModelScore m) = Evaluate"
| "stage_of (PlotCall k ss) = Plot"

text \<open>The simulation cell shared by the two PID notebooks.\<close>

definition pid_simulation_calls :: "call list" where
  "pid_simulation_calls =
     [NpRandomSeed 42, NpRandomDraw ''error'', NpRandomDraw ''derivative'',
      Compute ''integral'', NpRandomDraw ''setpoint'', Compute ''Kp'', Compute ''Ki'',
      Compute ''Kd'', MakeFrame ''data'']"

text \<open>
  \<^verbatim>\<open>
  def plot_predictions(true_values, predicted_values, title):
      plt.scatter(true_values, predicted_values, alpha=0.5)
      plt.plot([min(true_values), max(true_values)], [min(true_values), max(true_values)], ...)
  \<close>
\<close>

definition plot_predictions :: "call list" where
  "plot_predictions = [PlotCall Scatter [Truth, Predicted], PlotCall Line [Truth, Truth]]"

definition pid_boosting_calls :: "call list" where
  "pid_boosting_calls =
     pid_simulation_calls @
     [Transform ''StandardScaler.fit_transform'' ''X_scaled'', TrainTestSplit,
      ModelFit ''ada_model_kp'', ModelFit ''ada_model_ki'', ModelFit ''ada_model_kd'',
      ModelFit ''gb_model_kp'', ModelFit ''gb_model_ki'', ModelFit ''gb_model_kd'',
      ModelFit ''xg_model_kp'', ModelFit ''xg_model_ki'', ModelFit ''xg_model_kd'',
      ModelPredict ''ada_model_kp'' ''ada_predictions_kp'',
      ModelPredict ''ada_model_ki'' ''ada_predictions_ki'',
      ModelPredict ''ada_model_kd'' ''ada_predictions_kd'',
      ModelPredict ''gb_model_kp'' ''gb_predictions_kp'',
      ModelPredict ''gb_model_ki'' ''gb_predictions_ki'',
      ModelPredict ''gb_model_kd'' ''gb_predictions_kd'',
      ModelPredict ''xg_model_kp'' ''xg_predictions_kp'',
      ModelPredict ''xg_model_ki'' ''xg_predictions_ki'',
      ModelPredict ''xg_model_kd'' ''xg_predictions_kd'',
      Metric R2 ''ada_predictions_kp'', Metric R2 ''ada_predictions_ki'',
      Metric R2 ''ada_predictions_kd'', Metric R2 ''gb_predictions_kp'',
      Metric R2 ''gb_predictions_ki'', Metric R2 ''gb_predictions_kd'',
      Metric R2 ''xg_predictions_kp'', Metric R2 ''xg_predictions_ki'',
      Metric R2 ''xg_predictions_kd''] @
     plot_predictions @ plot_predictions @ plot_predictions @
     plot_predictions @ plot_predictions @ plot_predictions @
     plot_predictions @ plot_predictions @ plot_predictions"

text \<open>A subplot of the random-forest notebook: true values and predictions by row number.\<close>

definition prediction_subplot :: "call list" where
  "prediction_subplot = [PlotCall Scatter [Position, Truth], PlotCall Scatter [Position, Predicted]]"

definition pid_forest_calls :: "call list" where
  "pid_forest_calls =
     pid_simulation_calls @
     [Transform ''StandardScaler.fit_transform'' ''X_scaled'', TrainTestSplit,
      ModelFit ''dt_model'', ModelFit ''rf_model'',
      ModelPredict ''dt_model'' ''dt_predictions'',
      ModelPredict ''rf_model'' ''rf_predictions'',
      Metric R2 ''dt_predictions'', Metric R2 ''rf_predictions'',
      Metric R2 ''dt_predictions'', Metric R2 ''rf_predictions'',
      Metric R2 ''dt_predictions'', Metric R2 ''rf_predictions''] @
     prediction_subplot @ prediction_subplot @ prediction_subplot @
     prediction_subplot @ prediction_subplot @ prediction_subplot"

text \<open>
  The Gaussian Naive Bayes notebook ends with calls of \<open>predict_single_email\<close> and
  \<open>predict_batch_emails\<close> on literal input; its checkpoint copy stops after the
  evaluation.
\<close>

definition gnb_spam_checkpoint_calls :: "call list" where
  "gnb_spam_checkpoint_calls =
     [LiteralData ''data'', MakeFrame ''df'', TrainTestSplit, ModelFit ''gnb'',
      ModelPredict ''gnb'' ''y_pred'', Metric Accuracy ''y_pred'',
      Metric ConfusionMatrix ''y_pred'']"

definition gnb_spam_calls :: "call list" where
  "gnb_spam_calls =
     gnb_spam_checkpoint_calls @
     [LiteralData ''sample_email'', ModelPredict ''gnb'' ''prediction'',
      LiteralData ''sample_batch'', ModelPredict ''gnb'' ''predictions'']"

definition stock_price_calls :: "call list" where
  "stock_price_calls =
     [NpRandomDraw ''daily_returns'', Compute ''stock_prices'', MakeFrame ''df'',
      Transform ''interpolate'' ''Stock Price'',
      Transform ''rolling.mean'' ''Moving Average'',
      Transform ''days'' ''Date'',
      Transform ''StandardScaler.fit_transform'' ''Date, Stock Price'',
      PlotCall Line [Feature, Truth],
      Transform ''PolynomialFeatures.fit_transform'' ''X_poly'',
      PlotCall Scatter [Feature, Truth],
      Transform ''PolynomialFeatures.fit_transform'' ''X_poly_transformed'',
      PlotCall Line [Feature, Feature], PlotCall Line [Feature, Feature],
      PlotCall Line [Feature, Feature],
      TrainTestSplit, ModelFit ''model'', ModelPredict ''model'' ''y_pred'',
      PlotCall Scatter [Feature, Truth], PlotCall Line [Feature, Predicted],
      ModelPredict ''model'' ''y_train_pred'', ModelPredict ''model'' ''y_test_pred'',
      Metric MeanSquaredError ''y_train_pred'', Metric MeanSquaredError ''y_test_pred'',
      Metric R2 ''y_train_pred'', Metric R2 ''y_test_pred'']"

definition house_price_calls :: "call list" where
  "house_price_calls =
     [LiteralData ''X'', LiteralData ''y'',
      NpRandomSeed 42, NpRandomDraw ''X'', NpRandomDraw ''y'',
      TrainTestSplit, ModelFit ''model'', ModelPredict ''model'' ''y_pred'',
      Metric MeanSquaredError ''y_pred'', Metric R2 ''y_pred'',
      ModelPredict ''model'' ''predicted_price'',
      PlotCall Scatter [Feature, Truth],
      ModelPredict ''model'' ''regression_line'', PlotCall Line [Feature, Predicted]]"

definition loan_default_calls :: "call list" where
  "loan_default_calls =
     [NpRandomSeed 42, NpRandomDraw ''income'', NpRandomDraw ''age'',
      NpRandomDraw ''credit_score'', NpRandomDraw ''loan_default'', MakeFrame ''df'',
      TrainTestSplit,
      Transform ''StandardScaler.fit_transform'' ''X_train'',
      Transform ''StandardScaler.transform'' ''X_test'',
      ModelFit ''model'', ModelPredict ''model'' ''y_pred'',
      Metric Accuracy ''y_pred'', Metric Precision ''y_pred'', Metric Recall ''y_pred'',
      Metric F1Score ''y_pred'', Metric ConfusionMatrix ''y_pred'',
      PlotCall Scatter [Feature, Feature, Predicted]]"

definition fault_detection_calls :: "call list" where
  "fault_detection_calls =
     [SeededGenerator ''make_classification'' 42, Compute ''feature_names'',
      MakeFrame ''df'', Compute ''Target'',
      TrainTestSplit,
      ModelFit ''bagging'', ModelPredict ''bagging'' ''bagging_pred'',
      Metric Accuracy ''bagging_pred'',
      ModelFit ''boosting'', ModelPredict ''boosting'' ''boosting_pred'',
      Metric Accuracy ''boosting_pred'',
      Metric Accuracy ''bagging_pred'', Metric Accuracy ''boosting_pred'']"

text \<open>
  The text spam notebook evaluates \<open>y_pred\<close>, a variable that no cell assigns: there is
  no call of \<open>model.predict\<close>.
\<close>

definition text_spam_calls :: "call list" where
  "text_spam_calls =
     [LiteralData ''emails'', LiteralData ''labels'',
      Transform ''CountVectorizer.fit_transform'' ''X'',
      TrainTestSplit, ModelFit ''model'',
      Metric Accuracy ''y_pred'', Metric ConfusionMatrix ''y_pred'',
      Metric ClassificationReport ''y_pred'']"

definition iris_pruning_calls :: "call list" where
  "iris_pruning_calls =
     [LoadDataset ''load_iris'', TrainTestSplit,
      ModelFit ''clf_preprune'', ModelScore ''clf_preprune'', ModelScore ''clf_preprune'',
      ModelFit ''clf_postprune'', ModelScore ''clf_postprune'', ModelScore ''clf_postprune'']"

definition fruit_classification_calls :: "call list" where
  "fruit_classification_calls =
     [NpRandomSeed 42, NpRandomDraw ''feature1'', NpRandomDraw ''feature2'',
      Compute ''labels'', MakeFrame ''df'',
      TrainTestSplit, ModelFit ''clf_entropy'', ModelFit ''clf_gini'',
      ModelPredict ''clf_entropy'' ''y_pred_entropy'',
      ModelPredict ''clf_gini'' ''y_pred_gini'',
      Metric Accuracy ''y_pred_entropy'', Metric Accuracy ''y_pred_gini'',
      PlotCall TreeDiagram [], PlotCall TreeDiagram []]"

definition wearable_sensor_calls :: "call list" where
  "wearable_sensor_calls =
     [LiteralData ''data'', MakeFrame ''df'',
      NpRandomSeed 42, NpRandomDraw ''heart_rate'', NpRandomDraw ''steps'',
      NpRandomDraw ''temperature'', NpRandomDraw ''activity_level'',
      NpRandomDraw ''sleep_duration'', NpRandomDraw ''label'', MakeFrame ''df'',
      Transform ''StandardScaler.fit_transform'' ''X_scaled'',
      TrainTestSplit, ModelFit ''model'', ModelPredict ''model'' ''y_pred'',
      Metric Accuracy ''y_pred'', Metric ClassificationReport ''y_pred'',
      Metric ConfusionMatrix ''y_pred'']"

text \<open>The twelve notebooks of the repository, by name.\<close>

definition notebooks :: "(string \<times> call list) list" where
  "notebooks =
     [(''pid_boosting'', pid_boosting_calls),
      (''pid_random_forest'', pid_forest_calls),
      (''gnb_spam'', gnb_spam_calls),
      (''gnb_spam_checkpoint'', gnb_spam_checkpoint_calls),
      (''stock_price'', stock_price_calls),
      (''house_price'', house_price_calls),
      (''loan_default'', loan_default_calls),
      (''fault_detection'', fault_detection_calls),
      (''text_spam'', text_spam_calls),
      (''iris_pruning'', iris_pruning_calls),
      (''fruit_classification'', fruit_classification_calls),
      (''wearable_sensor'', wearable_sensor_calls)]"

text \<open>The notebooks, by name, whose call sequence satisfies a property.\<close>

definition notebooks_where :: "(call list \<Rightarrow> bool) \<Rightarrow> string list" where
  "notebooks_where P = map fst (filter (\<lambda>nb. P (snd nb)) notebooks)"

definition every_notebook :: "(call list \<Rightarrow> bool) \<Rightarrow> bool" where
  "every_notebook P = list_all (\<lambda>nb. P (snd nb)) notebooks"

subsection \<open>Order of the stages\<close>

fun rank :: "stage \<Rightarrow> nat" where
  "rank Generate = 0"
| "rank Preprocess = 1"
| "rank Split = 2"
| "rank Fit = 3"
| "rank Predict = 4"
| "rank Evaluate = 5"
| "rank Plot = 6"

text \<open>The calls never return to an earlier stage of the pipeline.\<close>

fun nondecreasing :: "nat list \<Rightarrow> bool" where
  "nondecreasing [] = True"
| "nondecreasing [x] = True"
| "nondecreasing (x # y # zs) = (x \<le> y \<and> nondecreasing (y # zs))"

definition in_pipeline_order :: "call list \<Rightarrow> bool" where
  "in_pipeline_order cs = nondecreasing (map (\<lambda>c. rank (stage_of c)) cs)"

text \<open>No call of stage \<open>b\<close> comes before the first call of stage \<open>a\<close>.\<close>

fun no_earlier :: "stage \<Rightarrow> stage \<Rightarrow> call list \<Rightarrow> bool" where
  "no_earlier a b [] = True"
| "no_earlier a b (c # cs) =
     (if stage_of c = a then True
      else if stage_of c = b then False
      else no_earlier a b cs)"

text \<open>No call of stage \<open>b\<close> comes after the first call of stage \<open>a\<close>.\<close>

fun none_after :: "stage \<Rightarrow> stage \<Rightarrow> call list \<Rightarrow> bool" where
  "none_after a b [] = True"
| "none_after a b (c # cs) =
     (if stage_of c = a then list_all (\<lambda>d. stage_of d \<noteq> b) cs else none_after a b cs)"

definition starts_with_generation :: "call list \<Rightarrow> bool" where
  "starts_with_generation cs = (case cs of [] \<Rightarrow> False | c # _ \<Rightarrow> stage_of c = Generate)"

text \<open>Every model that predicts or is scored has been fitted by an earlier call.\<close>

fun fitted_before_use :: "string list \<Rightarrow> call list \<Rightarrow> bool" where
  "fitted_before_use fitted [] = True"
| "fitted_before_use fitted (ModelFit m # cs) = fitted_before_use (m # fitted) cs"
| "fitted_before_use fitted (ModelPredict m v # cs) =
     (m \<in> set fitted \<and> fitted_before_use fitted cs)"
| "fitted_before_use fitted (ModelScore m # cs) =
     (m \<in> set fitted \<and> fitted_before_use fitted cs)"
| "fitted_before_use fitted (c # cs) = fitted_before_use fitted cs"

subsection \<open>What a notebook contains\<close>

fun is_data_source :: "call \<Rightarrow> bool" where
  "is_data_source (NpRandomDraw v) = True"
| "is_data_source (SeededGenerator f k) = True"
| "is_data_source (LoadDataset f) = True"
| "is_data_source (LiteralData v) = True"
| "is_data_source c = False"

definition constructs_dataset :: "call list \<Rightarrow> bool" where
  "constructs_dataset cs = list_ex is_data_source cs"

definition fits_model :: "call list \<Rightarrow> bool" where
  "fits_model cs = list_ex (\<lambda>c. stage_of c = Fit) cs"

text \<open>The metrics the specification calls standard.\<close>

fun standard_metric :: "metric \<Rightarrow> bool" where
  "standard_metric R2 = True"
| "standard_metric Accuracy = True"
| "standard_metric ConfusionMatrix = True"
| "standard_metric ClassificationReport = True"
| "standard_metric k = False"

text \<open>
  Some standard metric is computed on a variable that an earlier \<open>predict\<close> of a fitted
  model produced, or a fitted classifier is scored with its \<open>score\<close> method (its mean
  accuracy).
\<close>

fun scores_predictions :: "string list \<Rightarrow> string list \<Rightarrow> call list \<Rightarrow> bool" where
  "scores_predictions fitted predicted [] = False"
| "scores_predictions fitted predicted (ModelFit m # cs) =
     scores_predictions (m # fitted) predicted cs"
| "scores_predictions fitted predicted (ModelPredict m v # cs) =
     scores_predictions fitted (if m \<in> set fitted then v # predicted else predicted) cs"
| "scores_predictions fitted predicted (Metric k v # cs) =
     (if standard_metric k \<and> v \<in> set predicted then True
      else scores_predictions fitted predicted cs)"
| "scores_predictions fitted predicted (ModelScore m # cs) =
     (if m \<in> set fitted then True else scores_predictions fitted predicted cs)"
| "scores_predictions fitted predicted (c # cs) = scores_predictions fitted predicted cs"

definition metric_on_predictions :: "call list \<Rightarrow> bool" where
  "metric_on_predictions cs = scores_predictions [] [] cs"

text \<open>A scatter or line plot that shows a series of the given kind.\<close>

fun displays :: "series \<Rightarrow> call \<Rightarrow> bool" where
  "displays s (PlotCall k ss) = ((k = Scatter \<or> k = Line) \<and> s \<in> set ss)"
| "displays s c = False"

definition plots_predictions_against_truth :: "call list \<Rightarrow> bool" where
  "plots_predictions_against_truth cs = (list_ex (displays Predicted) cs \<and> list_ex (displays Truth) cs)"

definition draws_plot :: "call list \<Rightarrow> bool" where
  "draws_plot cs = list_ex (\<lambda>c. stage_of c = Plot) cs"

subsection \<open>Seeding\<close>

fun is_np_random_seed :: "call \<Rightarrow> bool" where
  "is_np_random_seed (NpRandomSeed k) = True"
| "is_np_random_seed c = False"

definition calls_np_random_seed :: "call list \<Rightarrow> bool" where
  "calls_np_random_seed cs = list_ex is_np_random_seed cs"

text \<open>Some draw from the global generator is made before any \<^verbatim>\<open>np.random.seed\<close>.\<close>

fun draws_unseeded :: "call list \<Rightarrow> bool" where
  "draws_unseeded [] = False"
| "draws_unseeded (NpRandomSeed k # cs) = False"
| "draws_unseeded (NpRandomDraw v # cs) = True"
| "draws_unseeded (c # cs) = draws_unseeded cs"

fun is_random_source :: "call \<Rightarrow> bool" where
  "is_random_source (NpRandomDraw v) = True"
| "is_random_source (SeededGenerator f k) = True"
| "is_random_source c = False"

definition samples :: "call list \<Rightarrow> bool" where
  "samples cs = list_ex is_random_source cs"

subsection \<open>Statements and exception handlers\<close>

text \<open>
  A statement of a notebook is a library call or a \<open>try\<close> statement,
  \<^verbatim>\<open>try: body except Exception: handler\<close>, which is how Python catches an exception,
  retries a call or replaces an exception by another one.
\<close>

datatype stmt = Do call | TryExcept "stmt list" "stmt list"

text \<open>
  The statements of each notebook, cell by cell in source order. A \<open>try\<close> statement of
  a cell would be listed as \<open>TryExcept\<close>; the body of \<open>plot_predictions\<close>, of
  \<open>predict_single_email\<close> and of \<open>predict_batch_emails\<close> is listed where the
  function is called.
\<close>

definition pid_simulation_program :: "stmt list" where
  "pid_simulation_program =
     [Do (NpRandomSeed 42), Do (NpRandomDraw ''error''), Do (NpRandomDraw ''derivative''),
      Do (Compute ''integral''), Do (NpRandomDraw ''setpoint''), Do (Compute ''Kp''),
      Do (Compute ''Ki''), Do (Compute ''Kd''), Do (MakeFrame ''data'')]"

definition plot_predictions_program :: "stmt list" where
  "plot_predictions_program =
     [Do (PlotCall Scatter [Truth, Predicted]), Do (PlotCall Line [Truth, Truth])]"

definition pid_boosting_program :: "stmt list" where
  "pid_boosting_program =
     pid_simulation_program @
     [Do (Transform ''StandardScaler.fit_transform'' ''X_scaled''), Do TrainTestSplit,
      Do (ModelFit ''ada_model_kp''), Do (ModelFit ''ada_model_ki''),
      Do (ModelFit ''ada_model_kd''), Do (ModelFit ''gb_model_kp''),
      Do (ModelFit ''gb_model_ki''), Do (ModelFit ''gb_model_kd''),
      Do (ModelFit ''xg_model_kp''), Do (ModelFit ''xg_model_ki''),
      Do (ModelFit ''xg_model_kd''), Do (ModelPredict ''ada_model_kp'' ''ada_predictions_kp''),
      Do (ModelPredict ''ada_model_ki'' ''ada_predictions_ki''),
      Do (ModelPredict ''ada_model_kd'' ''ada_predictions_kd''),
      Do (ModelPredict ''gb_model_kp'' ''gb_predictions_kp''),
      Do (ModelPredict ''gb_model_ki'' ''gb_predictions_ki''),
      Do (ModelPredict ''gb_model_kd'' ''gb_predictions_kd''),
      Do (ModelPredict ''xg_model_kp'' ''xg_predictions_kp''),
      Do (ModelPredict ''xg_model_ki'' ''xg_predictions_ki''),
      Do (ModelPredict ''xg_model_kd'' ''xg_predictions_kd''),
      Do (Metric R2 ''ada_predictions_kp''), Do (Metric R2 ''ada_predictions_ki''),
      Do (Metric R2 ''ada_predictions_kd''), Do (Metric R2 ''gb_predictions_kp''),
      Do (Metric R2 ''gb_predictions_ki''), Do (Metric R2 ''gb_predictions_kd''),
      Do (Metric R2 ''xg_predictions_kp''), Do (Metric R2 ''xg_predictions_ki''),
      Do (Metric R2 ''xg_predictions_kd'')] @
     plot_predictions_program @ plot_predictions_program @ plot_predictions_program @
     plot_predictions_program @ plot_predictions_program @ plot_predictions_program @
     plot_predictions_program @ plot_predictions_program @ plot_predictions_program"

definition prediction_subplot_program :: "stmt list" where
  "prediction_subplot_program =
     [Do (PlotCall Scatter [Position, Truth]), Do (PlotCall Scatter [Position, Predicted])]"

definition pid_forest_program :: "stmt list" where
  "pid_forest_program =
     pid_simulation_program @
     [Do (Transform ''StandardScaler.fit_transform'' ''X_scaled''), Do TrainTestSplit,
      Do (ModelFit ''dt_model''), Do (ModelFit ''rf_model''),
      Do (ModelPredict ''dt_model'' ''dt_predictions''),
      Do (ModelPredict ''rf_model'' ''rf_predictions''), Do (Metric R2 ''dt_predictions''),
      Do (Metric R2 ''rf_predictions''), Do (Metric R2 ''dt_predictions''),
      Do (Metric R2 ''rf_predictions''), Do (Metric R2 ''dt_predictions''),
      Do (Metric R2 ''rf_predictions'')] @
     prediction_subplot_program @ prediction_subplot_program @ prediction_subplot_program @
     prediction_subplot_program @ prediction_subplot_program @ prediction_subplot_program"

definition gnb_spam_checkpoint_program :: "stmt list" where
  "gnb_spam_checkpoint_program =
     [Do (LiteralData ''data''), Do (MakeFrame ''df''), Do TrainTestSplit,
      Do (ModelFit ''gnb''), Do (ModelPredict ''gnb'' ''y_pred''),
      Do (Metric Accuracy ''y_pred''), Do (Metric ConfusionMatrix ''y_pred'')]"

definition gnb_spam_program :: "stmt list" where
  "gnb_spam_program =
     gnb_spam_checkpoint_program @
     [Do (LiteralData ''sample_email''), Do (ModelPredict ''gnb'' ''prediction''),
      Do (LiteralData ''sample_batch''), Do (ModelPredict ''gnb'' ''predictions'')]"

definition stock_price_program :: "stmt list" where
  "stock_price_program =
     [Do (NpRandomDraw ''daily_returns''), Do (Compute ''stock_prices''), Do (MakeFrame ''df''),
      Do (Transform ''interpolate'' ''Stock Price''),
      Do (Transform ''rolling.mean'' ''Moving Average''), Do (Transform ''days'' ''Date''),
      Do (Transform ''StandardScaler.fit_transform'' ''Date, Stock Price''),
      Do (PlotCall Line [Feature, Truth]),
      Do (Transform ''PolynomialFeatures.fit_transform'' ''X_poly''),
      Do (PlotCall Scatter [Feature, Truth]),
      Do (Transform ''PolynomialFeatures.fit_transform'' ''X_poly_transformed''),
      Do (PlotCall Line [Feature, Feature]), Do (PlotCall Line [Feature, Feature]),
      Do (PlotCall Line [Feature, Feature]), Do TrainTestSplit, Do (ModelFit ''model''),
      Do (ModelPredict ''model'' ''y_pred''), Do (PlotCall Scatter [Feature, Truth]),
      Do (PlotCall Line [Feature, Predicted]), Do (ModelPredict ''model'' ''y_train_pred''),
      Do (ModelPredict ''model'' ''y_test_pred''),
      Do (Metric MeanSquaredError ''y_train_pred''),
      Do (Metric MeanSquaredError ''y_test_pred''), Do (Metric R2 ''y_train_pred''),
      Do (Metric R2 ''y_test_pred'')]"

definition house_price_program :: "stmt list" where
  "house_price_program =
     [Do (LiteralData ''X''), Do (LiteralData ''y''), Do (NpRandomSeed 42),
      Do (NpRandomDraw ''X''), Do (NpRandomDraw ''y''), Do TrainTestSplit,
      Do (ModelFit ''model''), Do (ModelPredict ''model'' ''y_pred''),
      Do (Metric MeanSquaredError ''y_pred''), Do (Metric R2 ''y_pred''),
      Do (ModelPredict ''model'' ''predicted_price''), Do (PlotCall Scatter [Feature, Truth]),
      Do (ModelPredict ''model'' ''regression_line''), Do (PlotCall Line [Feature, Predicted])]"

definition loan_default_program :: "stmt list" where
  "loan_default_program =
     [Do (NpRandomSeed 42), Do (NpRandomDraw ''income''), Do (NpRandomDraw ''age''),
      Do (NpRandomDraw ''credit_score''), Do (NpRandomDraw ''loan_default''),
      Do (MakeFrame ''df''), Do TrainTestSplit,
      Do (Transform ''StandardScaler.fit_transform'' ''X_train''),
      Do (Transform ''StandardScaler.transform'' ''X_test''), Do (ModelFit ''model''),
      Do (ModelPredict ''model'' ''y_pred''), Do (Metric Accuracy ''y_pred''),
      Do (Metric Precision ''y_pred''), Do (Metric Recall ''y_pred''),
      Do (Metric F1Score ''y_pred''), Do (Metric ConfusionMatrix ''y_pred''),
      Do (PlotCall Scatter [Feature, Feature, Predicted])]"

definition fault_detection_program :: "stmt list" where
  "fault_detection_program =
     [Do (SeededGenerator ''make_classification'' 42), Do (Compute ''feature_names''),
      Do (MakeFrame ''df''), Do (Compute ''Target''), Do TrainTestSplit,
      Do (ModelFit ''bagging''), Do (ModelPredict ''bagging'' ''bagging_pred''),
      Do (Metric Accuracy ''bagging_pred''), Do (ModelFit ''boosting''),
      Do (ModelPredict ''boosting'' ''boosting_pred''), Do (Metric Accuracy ''boosting_pred''),
      Do (Metric Accuracy ''bagging_pred''), Do (Metric Accuracy ''boosting_pred'')]"

definition text_spam_program :: "stmt list" where
  "text_spam_program =
     [Do (LiteralData ''emails''), Do (LiteralData ''labels''),
      Do (Transform ''CountVectorizer.fit_transform'' ''X''), Do TrainTestSplit,
      Do (ModelFit ''model''), Do (Metric Accuracy ''y_pred''),
      Do (Metric ConfusionMatrix ''y_pred''), Do (Metric ClassificationReport ''y_pred'')]"

definition iris_pruning_program :: "stmt list" where
  "iris_pruning_program =
     [Do (LoadDataset ''load_iris''), Do TrainTestSplit, Do (ModelFit ''clf_preprune''),
      Do (ModelScore ''clf_preprune''), Do (ModelScore ''clf_preprune''),
      Do (ModelFit ''clf_postprune''), Do (ModelScore ''clf_postprune''),
      Do (ModelScore ''clf_postprune'')]"

definition fruit_classification_program :: "stmt list" where
  "fruit_classification_program =
     [Do (NpRandomSeed 42), Do (NpRandomDraw ''feature1''), Do (NpRandomDraw ''feature2''),
      Do (Compute ''labels''), Do (MakeFrame ''df''), Do TrainTestSplit,
      Do (ModelFit ''clf_entropy''), Do (ModelFit ''clf_gini''),
      Do (ModelPredict ''clf_entropy'' ''y_pred_entropy''),
      Do (ModelPredict ''clf_gini'' ''y_pred_gini''), Do (Metric Accuracy ''y_pred_entropy''),
      Do (Metric Accuracy ''y_pred_gini''), Do (PlotCall TreeDiagram []),
      Do (PlotCall TreeDiagram [])]"

definition wearable_sensor_program :: "stmt list" where
  "wearable_sensor_program =
     [Do (LiteralData ''data''), Do (MakeFrame ''df''), Do (NpRandomSeed 42),
      Do (NpRandomDraw ''heart_rate''), Do (NpRandomDraw ''steps''),
      Do (NpRandomDraw ''temperature''), Do (NpRandomDraw ''activity_level''),
      Do (NpRandomDraw ''sleep_duration''), Do (NpRandomDraw ''label''), Do (MakeFrame ''df''),
      Do (Transform ''StandardScaler.fit_transform'' ''X_scaled''), Do TrainTestSplit,
      Do (ModelFit ''model''), Do (ModelPredict ''model'' ''y_pred''),
      Do (Metric Accuracy ''y_pred''), Do (Metric ClassificationReport ''y_pred''),
      Do (Metric ConfusionMatrix ''y_pred'')]"

definition notebook_programs :: "(string \<times> stmt list) list" where
  "notebook_programs =
     [(''pid_boosting'', pid_boosting_program),
      (''pid_random_forest'', pid_forest_program),
      (''gnb_spam'', gnb_spam_program),
      (''gnb_spam_checkpoint'', gnb_spam_checkpoint_program),
      (''stock_price'', stock_price_program),
      (''house_price'', house_price_program),
      (''loan_default'', loan_default_program),
      (''fault_detection'', fault_detection_program),
      (''text_spam'', text_spam_program),
      (''iris_pruning'', iris_pruning_program),
      (''fruit_classification'', fruit_classification_program),
      (''wearable_sensor'', wearable_sensor_program)]"

text \<open>No statement of the program is a \<open>try\<close> statement.\<close>

fun handler_free :: "stmt list \<Rightarrow> bool" where
  "handler_free [] = True"
| "handler_free (Do c # rest) = handler_free rest"
| "handler_free (TryExcept body handler # rest) = False"

text \<open>The calls written in a program, handlers included, in source order.\<close>

fun calls_in :: "stmt list \<Rightarrow> call list" where
  "calls_in [] = []"
| "calls_in (Do c # rest) = c # calls_in rest"
| "calls_in (TryExcept body handler # rest) = calls_in body @ calls_in handler @ calls_in rest"

text \<open>
  What each call does to the interpreter's state is the library's business: \<open>sem\<close>,
  which returns the next state or raises. A run gives the calls made, the exceptions
  that calls raised, the state reached, and the exception that ends the run, if any.
  A call that raises ends the statements around it, up to the nearest enclosing
  \<open>try\<close>; there the handler runs from the state reached, and the statements after the
  \<open>try\<close> follow unless the handler raises too.
\<close>

fun run_program ::
  "(call \<Rightarrow> 'st \<Rightarrow> error + 'st) \<Rightarrow> stmt list \<Rightarrow> 'st \<Rightarrow>
     call list \<times> error list \<times> 'st \<times> error option" where
  "run_program sem [] st = ([], [], st, None)"
| "run_program sem (Do c # rest) st =
     (case sem c st of
        Inl e \<Rightarrow> ([c], [e], st, Some e)
      | Inr st1 \<Rightarrow>
          (case run_program sem rest st1 of
             (made, raised, st2, outcome) \<Rightarrow> (c # made, raised, st2, outcome)))"
| "run_program sem (TryExcept body handler # rest) st =
     (case run_program sem body st of
        (made1, raised1, st1, None) \<Rightarrow>
          (case run_program sem rest st1 of
             (made, raised, st2, outcome) \<Rightarrow> (made1 @ made, raised1 @ raised, st2, outcome))
      | (made1, raised1, st1, Some e) \<Rightarrow>
          (case run_program sem handler st1 of
             (made2, raised2, st2, Some e2) \<Rightarrow> (made1 @ made2, raised1 @ raised2, st2, Some e2)
           | (made2, raised2, st2, None) \<Rightarrow>
               (case run_program sem rest st2 of
                  (made, raised, st3, outcome) \<Rightarrow>
                    (made1 @ made2 @ made, raised1 @ raised2 @ raised, st3, outcome))))"

text \<open>
  A run without catching, retrying or transforming: either every call of the program is
  made and none raises, or exactly one exception is raised, it is the outcome of the run,
  the calls made are an initial part of the program's calls, and the last of them is the
  call that raised.
\<close>

definition ends_at_first_raise ::
  "(call \<Rightarrow> 'st \<Rightarrow> error + 'st) \<Rightarrow> stmt list \<Rightarrow> 'st \<Rightarrow> bool" where
  "ends_at_first_raise sem prog st =
     (case run_program sem prog st of
        (made, raised, st1, None) \<Rightarrow> raised = [] \<and> made = calls_in prog
      | (made, raised, st1, Some e) \<Rightarrow>
          raised = [e] \<and> made \<noteq> [] \<and> made = take (length made) (calls_in prog) \<and>
          sem (last made) st1 = Inl e)"

text \<open>
  Libraries on which a failing run can be computed: a semantics whose state counts the
  calls made and whose train/test split raises ValueError, and a splitter that asks for
  row \<open>n\<close> of a table of \<open>n\<close> rows, which the table does not have.
\<close>

definition failing_split :: "call \<Rightarrow> nat \<Rightarrow> error + nat" where
  "failing_split c st = (if c = TrainTestSplit then Inl ValueError else Inr (Suc st))"

definition broken_split :: sklearn_prep where
  "broken_split = \<lparr> standard_scale = (\<lambda>c. c), split_indices = (\<lambda>n t r. ([n], [])) \<rparr>"

section \<open>Evaluation metrics\<close>

text \<open>
  Modelled from the spec: \<^verbatim>\<open>accuracy_score\<close> and \<^verbatim>\<open>r2_score\<close> are functions of
  scikit-learn, which is not among the sources of the repository; the specification calls
  them "standard statistical evaluation metrics computed by library calls". The
  definitions are the standard ones. Accuracy is the fraction of positions at which
  prediction and truth agree. R-squared is one minus the residual sum of squares divided by the
  total sum of squares of the truth around its mean. Arrays of different lengths raise
  ValueError; where the quotient is not defined (no sample, or a constant truth) the
  model returns \<open>UndefinedMetric\<close>.
\<close>

definition accuracy_score :: "'a list \<Rightarrow> 'a list \<Rightarrow> error + real" where
  "accuracy_score y_true y_pred =
     (if length y_true \<noteq> length y_pred then Inl ValueError
      else if y_true = [] then Inl UndefinedMetric
      else Inr (real (length (filter (\<lambda>(t, p). t = p) (zip y_true y_pred)))
                / real (length y_true)))"

definition mean :: "real list \<Rightarrow> real" where
  "mean xs = sum_list xs / real (length xs)"

definition ss_res :: "real list \<Rightarrow> real list \<Rightarrow> real" where
  "ss_res y_true y_pred = (\<Sum>(t, p) \<leftarrow> zip y_true y_pred. (t - p)\<^sup>2)"

definition ss_tot :: "real list \<Rightarrow> real" where
  "ss_tot y_true = (\<Sum>t \<leftarrow> y_true. (t - mean y_true)\<^sup>2)"

definition r2_score :: "real list \<Rightarrow> real list \<Rightarrow> error + real" where
  "r2_score y_true y_pred =
     (if length y_true \<noteq> length y_pred then Inl ValueError
      else if ss_tot y_true = 0 then Inl UndefinedMetric
      else Inr (1 - ss_res y_true y_pred / ss_tot y_true))"

text \<open>The truth takes at least two different values.\<close>

definition not_constant :: "real list \<Rightarrow> bool" where
  "not_constant ys = (\<exists>a \<in> set ys. \<exists>b \<in> set ys. a \<noteq> b)"

section \<open>Library lemmas\<close>

lemma length_cumsum_from: "length (cumsum_from acc xs) = length xs"
  by (induction xs arbitrary: acc) simp_all

lemma cumsum_from_nth:
  "i < length xs \<Longrightarrow> cumsum_from acc xs ! i = acc + sum_list (take (Suc i) xs)"
proof (induction xs arbitrary: acc i)
  case Nil
  then show ?case by simp
next
  case (Cons x xs)
  show ?case
  proof (cases i)
    case 0
    then show ?thesis by simp
  next
    case (Suc j)
    with Cons.prems have "j < length xs" by simp
    from Cons.IH [OF this, of "acc + x"] Suc show ?thesis by simp
  qed
qed

lemma length_cumsum: "length (cumsum xs) = length xs"
  by (simp add: cumsum_def length_cumsum_from)

lemma cumsum_nth: "i < length xs \<Longrightarrow> cumsum xs ! i = sum_list (take (Suc i) xs)"
  by (simp add: cumsum_def cumsum_from_nth)

lemma numpy_contract_uniform:
  assumes "numpy_contract np"
  shows "\<forall>lo hi n s. length (fst (random_uniform np lo hi n s)) = n \<and>
      (lo \<le> hi \<longrightarrow> (\<forall>x \<in> set (fst (random_uniform np lo hi n s)). lo \<le> x \<and> x \<le> hi))"
  using assms unfolding numpy_contract_def by (rule conjunct1)

lemma numpy_contract_normal:
  assumes "numpy_contract np"
  shows "\<forall>loc sc n s. length (fst (random_normal np loc sc n s)) = n"
  using assms unfolding numpy_contract_def by (elim conjE)

lemma numpy_contract_randint:
  assumes "numpy_contract np"
  shows "\<forall>lo hi n s. length (fst (random_randint np lo hi n s)) = n \<and>
      (lo < hi \<longrightarrow> (\<forall>x \<in> set (fst (random_randint np lo hi n s)). lo \<le> x \<and> x < hi))"
  using assms unfolding numpy_contract_def by (elim conjE)

lemma numpy_contract_choice:
  assumes "numpy_contract np"
  shows "\<forall>xs p n s. length (fst (random_choice np xs p n s)) = n \<and>
      (xs \<noteq> [] \<longrightarrow> set (fst (random_choice np xs p n s)) \<subseteq> set xs)"
  using assms unfolding numpy_contract_def by (elim conjE)

lemma uniform_length:
  "numpy_contract np \<Longrightarrow> length (fst (random_uniform np lo hi n s)) = n"
  using numpy_contract_uniform [of np] by simp

lemma uniform_range:
  "numpy_contract np \<Longrightarrow> lo \<le> hi \<Longrightarrow> x \<in> set (fst (random_uniform np lo hi n s)) \<Longrightarrow>
     lo \<le> x \<and> x \<le> hi"
  using numpy_contract_uniform [of np] by blast

lemma normal_length:
  "numpy_contract np \<Longrightarrow> length (fst (random_normal np loc sc n s)) = n"
  using numpy_contract_normal [of np] by simp

lemma randint_length:
  "numpy_contract np \<Longrightarrow> length (fst (random_randint np lo hi n s)) = n"
  using numpy_contract_randint [of np] by simp

lemma choice_length:
  "numpy_contract np \<Longrightarrow> length (fst (random_choice np xs p n s)) = n"
  using numpy_contract_choice [of np] by simp

lemma length_np_scale [simp]: "length (np_scale k xs) = length xs"
  by (simp add: np_scale_def)

lemma length_np_shift [simp]: "length (np_shift k xs) = length xs"
  by (simp add: np_shift_def)

lemma np_elementwise_same:
  "length xs = length ys \<Longrightarrow> np_elementwise f xs ys = Inr (map2 f xs ys)"
  by (simp add: np_elementwise_def)

lemma DataFrame_ok: "rows_are (n_rows cols) cols \<Longrightarrow> DataFrame cols = Inr cols"
  by (simp add: DataFrame_def)

lemma pid_simulate_ok:
  assumes np: "numpy_contract np"
  shows "\<exists>error derivative setpoint.
     length error = n_samples \<and> length derivative = n_samples \<and>
     length setpoint = n_samples \<and>
     (\<forall>x \<in> set error. - 2 \<le> x \<and> x \<le> 2) \<and>
     (\<forall>x \<in> set derivative. - 0.5 \<le> x \<and> x \<le> 0.5) \<and>
     pid_simulate np s0 =
       Inr [(''Error'', error), (''Derivative'', derivative), (''Integral'', cumsum error),
            (''Setpoint'', setpoint),
            (''Kp'', map2 (+) (np_shift 2 (np_scale 0.5 error)) (np_scale 0.1 derivative)),
            (''Ki'', np_shift 0.1 (np_scale 0.05 (cumsum error))),
            (''Kd'', np_shift 0.02 (np_scale 0.01 derivative))]"
proof -
  define r1 where "r1 = random_uniform np (- 2) 2 n_samples (random_seed np 42)"
  define r2 where "r2 = random_uniform np (- 0.5) 0.5 n_samples (snd r1)"
  define r3 where "r3 = random_normal np 0 0.5 n_samples (snd r2)"
  have l1: "length (fst r1) = n_samples" and l2: "length (fst r2) = n_samples"
    and l3: "length (fst r3) = n_samples"
    by (simp_all add: r1_def r2_def r3_def uniform_length [OF np] normal_length [OF np])
  have b1: "\<forall>x \<in> set (fst r1). - 2 \<le> x \<and> x \<le> 2"
    unfolding r1_def using uniform_range [OF np, of "- 2" 2] by simp
  have b2: "\<forall>x \<in> set (fst r2). - 0.5 \<le> x \<and> x \<le> 0.5"
    unfolding r2_def using uniform_range [OF np, of "- 0.5" "0.5"] by simp
  have sim: "pid_simulate np s0 =
       Inr [(''Error'', fst r1), (''Derivative'', fst r2), (''Integral'', cumsum (fst r1)),
            (''Setpoint'', np_shift 25 (fst r3)),
            (''Kp'', map2 (+) (np_shift 2 (np_scale 0.5 (fst r1))) (np_scale 0.1 (fst r2))),
            (''Ki'', np_shift 0.1 (np_scale 0.05 (cumsum (fst r1)))),
            (''Kd'', np_shift 0.02 (np_scale 0.01 (fst r2)))]"
    unfolding pid_simulate_def np_random_seed_def r1_def r2_def r3_def
    by (simp add: Let_def split_beta np_elementwise_same uniform_length [OF np]
        normal_length [OF np] bind_result_def DataFrame_ok rows_are_def n_rows_def
        length_cumsum)
  from l1 l2 l3 b1 b2 sim show ?thesis
    by (intro exI [of _ "fst r1"] exI [of _ "fst r2"] exI [of _ "np_shift 25 (fst r3)"]) simp
qed


lemma counter_random_contract: "numpy_contract counter_random"
  unfolding numpy_contract_def counter_random_def
  by (auto split: list.splits)

lemma identity_prep_contract: "sklearn_prep_contract identity_prep"
  by (auto simp: sklearn_prep_contract_def identity_prep_def list_all_iff)

lemma standard_scale_length:
  "sklearn_prep_contract sk \<Longrightarrow> length (standard_scale sk c) = length c"
  by (simp add: sklearn_prep_contract_def)

lemma split_indices_in_range:
  "sklearn_prep_contract sk \<Longrightarrow>
     list_all (\<lambda>i. i < n) (fst (split_indices sk n t r) @ snd (split_indices sk n t r))"
  unfolding sklearn_prep_contract_def by (elim conjE allE)

section \<open>Properties of the PID simulation\<close>

text \<open>
  Claim C8. In both PID notebooks (their simulation cell is the same), when numpy's samplers
  keep their documented contract, every generated row satisfies
  Kp = 2 + 0.5 Error + 0.1 Derivative and Kd = 0.02 + 0.01 Derivative, Integral is the
  running prefix sum of Error, Error lies in [-2, 2] and Derivative in [-0.5, 0.5], and
  therefore Kp lies in [0.95, 3.05] and Kd in [0.015, 0.025].
\<close>

theorem pid_rows_satisfy_equations:
  assumes np: "numpy_contract np"
  shows "\<exists>Error Derivative Integral Setpoint Kp Ki Kd.
     pid_simulate np s0 =
       Inr [(''Error'', Error), (''Derivative'', Derivative), (''Integral'', Integral),
            (''Setpoint'', Setpoint), (''Kp'', Kp), (''Ki'', Ki), (''Kd'', Kd)] \<and>
     length Error = n_samples \<and> length Derivative = n_samples \<and>
     length Integral = n_samples \<and> length Kp = n_samples \<and> length Kd = n_samples \<and>
     (\<forall>i < n_samples.
        Kp ! i = 2 + 0.5 * Error ! i + 0.1 * Derivative ! i \<and>
        Kd ! i = 0.02 + 0.01 * Derivative ! i \<and>
        Integral ! i = sum_list (take (Suc i) Error) \<and>
        - 2 \<le> Error ! i \<and> Error ! i \<le> 2 \<and>
        - 0.5 \<le> Derivative ! i \<and> Derivative ! i \<le> 0.5 \<and>
        0.95 \<le> Kp ! i \<and> Kp ! i \<le> 3.05 \<and>
        0.015 \<le> Kd ! i \<and> Kd ! i \<le> 0.025)"
proof -
  from pid_simulate_ok [OF np, of s0] obtain error derivative setpoint where
    le: "length error = n_samples" and ld: "length derivative = n_samples" and
    be: "\<forall>x \<in> set error. - 2 \<le> x \<and> x \<le> 2" and
    bd: "\<forall>x \<in> set derivative. - 0.5 \<le> x \<and> x \<le> 0.5" and
    sim: "pid_simulate np s0 =
       Inr [(''Error'', error), (''Derivative'', derivative), (''Integral'', cumsum error),
            (''Setpoint'', setpoint),
            (''Kp'', map2 (+) (np_shift 2 (np_scale 0.5 error)) (np_scale 0.1 derivative)),
            (''Ki'', np_shift 0.1 (np_scale 0.05 (cumsum error))),
            (''Kd'', np_shift 0.02 (np_scale 0.01 derivative))]"
    by blast
  have row: "\<forall>i < n_samples.
      map2 (+) (np_shift 2 (np_scale 0.5 error)) (np_scale 0.1 derivative) ! i
        = 2 + 0.5 * error ! i + 0.1 * derivative ! i \<and>
      np_shift 0.02 (np_scale 0.01 derivative) ! i = 0.02 + 0.01 * derivative ! i \<and>
      cumsum error ! i = sum_list (take (Suc i) error) \<and>
      - 2 \<le> error ! i \<and> error ! i \<le> 2 \<and>
      - 0.5 \<le> derivative ! i \<and> derivative ! i \<le> 0.5 \<and>
      0.95 \<le> map2 (+) (np_shift 2 (np_scale 0.5 error)) (np_scale 0.1 derivative) ! i \<and>
      map2 (+) (np_shift 2 (np_scale 0.5 error)) (np_scale 0.1 derivative) ! i \<le> 3.05 \<and>
      0.015 \<le> np_shift 0.02 (np_scale 0.01 derivative) ! i \<and>
      np_shift 0.02 (np_scale 0.01 derivative) ! i \<le> 0.025"
  proof (intro allI impI)
    fix i assume "i < n_samples"
    with le ld have ie: "i < length error" and id: "i < length derivative" by simp_all
    from ie be have e: "- 2 \<le> error ! i \<and> error ! i \<le> 2" by (meson nth_mem)
    from id bd have d: "- 0.5 \<le> derivative ! i \<and> derivative ! i \<le> 0.5"
      by (meson nth_mem)
    have kp: "map2 (+) (np_shift 2 (np_scale 0.5 error)) (np_scale 0.1 derivative) ! i
        = 2 + 0.5 * error ! i + 0.1 * derivative ! i"
      using ie id by (simp add: np_shift_def np_scale_def)
    have kd: "np_shift 0.02 (np_scale 0.01 derivative) ! i = 0.02 + 0.01 * derivative ! i"
      using id by (simp add: np_shift_def np_scale_def)
    have ig: "cumsum error ! i = sum_list (take (Suc i) error)"
      using ie by (rule cumsum_nth)
    have b: "0.95 \<le> 2 + 0.5 * error ! i + 0.1 * derivative ! i \<and>
        2 + 0.5 * error ! i + 0.1 * derivative ! i \<le> 3.05 \<and>
        0.015 \<le> 0.02 + 0.01 * derivative ! i \<and> 0.02 + 0.01 * derivative ! i \<le> 0.025"
      using e d by simp
    show "map2 (+) (np_shift 2 (np_scale 0.5 error)) (np_scale 0.1 derivative) ! i
        = 2 + 0.5 * error ! i + 0.1 * derivative ! i \<and>
      np_shift 0.02 (np_scale 0.01 derivative) ! i = 0.02 + 0.01 * derivative ! i \<and>
      cumsum error ! i = sum_list (take (Suc i) error) \<and>
      - 2 \<le> error ! i \<and> error ! i \<le> 2 \<and>
      - 0.5 \<le> derivative ! i \<and> derivative ! i \<le> 0.5 \<and>
      0.95 \<le> map2 (+) (np_shift 2 (np_scale 0.5 error)) (np_scale 0.1 derivative) ! i \<and>
      map2 (+) (np_shift 2 (np_scale 0.5 error)) (np_scale 0.1 derivative) ! i \<le> 3.05 \<and>
      0.015 \<le> np_shift 0.02 (np_scale 0.01 derivative) ! i \<and>
      np_shift 0.02 (np_scale 0.01 derivative) ! i \<le> 0.025"
      unfolding kp kd using ig e d b by blast
  qed
  have lens: "length (cumsum error) = n_samples"
    "length (map2 (+) (np_shift 2 (np_scale 0.5 error)) (np_scale 0.1 derivative)) = n_samples"
    "length (np_shift 0.02 (np_scale 0.01 derivative)) = n_samples"
    using le ld by (simp_all add: length_cumsum)
  show ?thesis
    apply (rule exI [of _ error], rule exI [of _ derivative], rule exI [of _ "cumsum error"],
        rule exI [of _ setpoint],
        rule exI [of _ "map2 (+) (np_shift 2 (np_scale 0.5 error)) (np_scale 0.1 derivative)"],
        rule exI [of _ "np_shift 0.1 (np_scale 0.05 (cumsum error))"],
        rule exI [of _ "np_shift 0.02 (np_scale 0.01 derivative)"])
    using sim le ld lens row by blast
qed

theorem pid_rows_satisfy_equations_witness:
  "numpy_contract counter_random \<and>
   (\<exists>Error Derivative Integral Setpoint Kp Ki Kd.
     pid_simulate counter_random 7 =
       Inr [(''Error'', Error), (''Derivative'', Derivative), (''Integral'', Integral),
            (''Setpoint'', Setpoint), (''Kp'', Kp), (''Ki'', Ki), (''Kd'', Kd)] \<and>
     Kp ! 0 = 2 + 0.5 * Error ! 0 + 0.1 * Derivative ! 0 \<and>
     Kd ! 0 = 0.02 + 0.01 * Derivative ! 0 \<and>
     Integral ! 0 = sum_list (take 1 Error) \<and>
     0.95 \<le> Kp ! 0 \<and> Kp ! 0 \<le> 3.05 \<and> 0.015 \<le> Kd ! 0 \<and> Kd ! 0 \<le> 0.025)"
proof -
  have pos: "0 < n_samples" by (simp add: n_samples_def)
  from pid_rows_satisfy_equations [OF counter_random_contract, of 7]
  obtain Error Derivative Integral Setpoint Kp Ki Kd where
    sim: "pid_simulate counter_random 7 =
       Inr [(''Error'', Error), (''Derivative'', Derivative), (''Integral'', Integral),
            (''Setpoint'', Setpoint), (''Kp'', Kp), (''Ki'', Ki), (''Kd'', Kd)]" and
    rows: "\<forall>i < n_samples.
        Kp ! i = 2 + 0.5 * Error ! i + 0.1 * Derivative ! i \<and>
        Kd ! i = 0.02 + 0.01 * Derivative ! i \<and>
        Integral ! i = sum_list (take (Suc i) Error) \<and>
        - 2 \<le> Error ! i \<and> Error ! i \<le> 2 \<and>
        - 0.5 \<le> Derivative ! i \<and> Derivative ! i \<le> 0.5 \<and>
        0.95 \<le> Kp ! i \<and> Kp ! i \<le> 3.05 \<and>
        0.015 \<le> Kd ! i \<and> Kd ! i \<le> 0.025"
    by blast
  from rows pos have "Kp ! 0 = 2 + 0.5 * Error ! 0 + 0.1 * Derivative ! 0 \<and>
     Kd ! 0 = 0.02 + 0.01 * Derivative ! 0 \<and>
     Integral ! 0 = sum_list (take 1 Error) \<and>
     0.95 \<le> Kp ! 0 \<and> Kp ! 0 \<le> 3.05 \<and> 0.015 \<le> Kd ! 0 \<and> Kd ! 0 \<le> 0.025"
    by (metis One_nat_def)
  with sim counter_random_contract show ?thesis by blast
qed

text \<open>
  Claim C6. In both PID notebooks the feature table X is made of exactly the columns Error,
  Derivative, Integral and Setpoint of the simulated data, none of them Kp, Ki or Kd; the
  array passed to every fit call is the training part, and the array passed to every
  predict call the test part, of the scaled X; Kp, Ki and Kd are the columns of the target
  table only.
\<close>

theorem pid_features_exclude_gains:
  assumes np: "numpy_contract np" and sk: "sklearn_prep_contract sk"
  shows "\<exists>data E D I S X_train X_test y_train y_test boosting_fits forest_fits.
     pid_simulate np s0 = Inr data \<and>
     map_of data ''Error'' = Some E \<and> map_of data ''Derivative'' = Some D \<and>
     map_of data ''Integral'' = Some I \<and> map_of data ''Setpoint'' = Some S \<and>
     pid_X data = Inr [(''Error'', E), (''Derivative'', D), (''Integral'', I), (''Setpoint'', S)] \<and>
     (\<forall>gain \<in> {''Kp'', ''Ki'', ''Kd''}.
        map_of [(''Error'', E), (''Derivative'', D), (''Integral'', I), (''Setpoint'', S)] gain
          = None) \<and>
     pid_X_scaled sk data = Inr (as_array (map (standard_scale sk) [E, D, I, S])) \<and>
     pid_split sk data = Inr (X_train, X_test, y_train, y_test) \<and>
     X_train = take_rows (fst (split_indices sk n_samples 0.2 42))
                 (as_array (map (standard_scale sk) [E, D, I, S])) \<and>
     X_test = take_rows (snd (split_indices sk n_samples 0.2 42))
                 (as_array (map (standard_scale sk) [E, D, I, S])) \<and>
     map fst y_train = [''Kp'', ''Ki'', ''Kd''] \<and>
     pid_boosting_notebook np sk s0 = Inr (boosting_fits, pid_boosting_predict_calls X_test) \<and>
     length boosting_fits = 9 \<and>
     list_all (\<lambda>(model, est, X, y). X = X_train) boosting_fits \<and>
     list_all (\<lambda>(model, X). X = X_test) (pid_boosting_predict_calls X_test) \<and>
     pid_forest_notebook np sk s0 = Inr (forest_fits, pid_forest_predict_calls X_test) \<and>
     length forest_fits = 2 \<and>
     list_all (\<lambda>(model, est, X, y). X = X_train) forest_fits \<and>
     list_all (\<lambda>(model, X). X = X_test) (pid_forest_predict_calls X_test)"
proof -
  from pid_simulate_ok [OF np, of s0] obtain E D S where
    le: "length E = n_samples" and ld: "length D = n_samples" and
    ls: "length S = n_samples" and
    sim: "pid_simulate np s0 =
       Inr [(''Error'', E), (''Derivative'', D), (''Integral'', cumsum E),
            (''Setpoint'', S),
            (''Kp'', map2 (+) (np_shift 2 (np_scale 0.5 E)) (np_scale 0.1 D)),
            (''Ki'', np_shift 0.1 (np_scale 0.05 (cumsum E))),
            (''Kd'', np_shift 0.02 (np_scale 0.01 D))]"
    by blast
  define data where "data = [(''Error'', E), (''Derivative'', D), (''Integral'', cumsum E),
            (''Setpoint'', S),
            (''Kp'', map2 (+) (np_shift 2 (np_scale 0.5 E)) (np_scale 0.1 D)),
            (''Ki'', np_shift 0.1 (np_scale 0.05 (cumsum E))),
            (''Kd'', np_shift 0.02 (np_scale 0.01 D))]"
  define Xs where "Xs = as_array (map (standard_scale sk) [E, D, cumsum E, S])"
  define y where "y = [(''Kp'', map2 (+) (np_shift 2 (np_scale 0.5 E)) (np_scale 0.1 D)),
            (''Ki'', np_shift 0.1 (np_scale 0.05 (cumsum E))),
            (''Kd'', np_shift 0.02 (np_scale 0.01 D))]"
  define X_train where "X_train = take_rows (fst (split_indices sk n_samples 0.2 42)) Xs"
  define X_test where "X_test = take_rows (snd (split_indices sk n_samples 0.2 42)) Xs"
  define y_train where "y_train = take_rows (fst (split_indices sk n_samples 0.2 42)) y"
  define y_test where "y_test = take_rows (snd (split_indices sk n_samples 0.2 42)) y"
  have sim': "pid_simulate np s0 = Inr data" by (simp add: sim data_def)
  have m: "map_of data ''Error'' = Some E" "map_of data ''Derivative'' = Some D"
    "map_of data ''Integral'' = Some (cumsum E)" "map_of data ''Setpoint'' = Some S"
    by (simp_all add: data_def)
  have X: "pid_X data =
      Inr [(''Error'', E), (''Derivative'', D), (''Integral'', cumsum E), (''Setpoint'', S)]"
    by (simp add: pid_X_def get_column_def data_def)
  have yy: "pid_y data = Inr y"
    by (simp add: pid_y_def get_column_def data_def y_def)
  have Xsc: "pid_X_scaled sk data = Inr Xs"
    by (simp add: pid_X_scaled_def X bind_result_def fit_transform_def Xs_def)
  have nX: "n_rows Xs = n_samples"
    using le by (simp add: Xs_def as_array_def n_rows_def standard_scale_length [OF sk])
  have ny: "n_rows y = n_samples"
    using le ld by (simp add: y_def n_rows_def)
  have split: "pid_split sk data = Inr (X_train, X_test, y_train, y_test)"
    using split_indices_in_range [OF sk, of n_samples "0.2" 42]
    by (simp add: pid_split_def Xsc yy bind_result_def train_test_split_def nX ny
        split_beta X_train_def X_test_def y_train_def y_test_def)
  have yt: "map fst y_train = [''Kp'', ''Ki'', ''Kd'']"
    by (simp add: y_train_def y_def take_rows_def)
  have series: "get_series y_train ''Kp'' = Inr [(''Kp'', the (map_of y_train ''Kp''))]"
    "get_series y_train ''Ki'' = Inr [(''Ki'', the (map_of y_train ''Ki''))]"
    "get_series y_train ''Kd'' = Inr [(''Kd'', the (map_of y_train ''Kd''))]"
    by (simp_all add: get_series_def get_column_def y_train_def y_def take_rows_def)
  obtain bf where bf: "pid_boosting_fit_calls X_train y_train = Inr bf" "length bf = 9"
    "list_all (\<lambda>(model, est, X, y). X = X_train) bf"
    by (simp add: pid_boosting_fit_calls_def series bind_result_def)
  have bn: "pid_boosting_notebook np sk s0 = Inr (bf, pid_boosting_predict_calls X_test)"
    by (simp add: pid_boosting_notebook_def pid_notebook_def sim' split bf bind_result_def)
  have bp: "list_all (\<lambda>(model, X). X = X_test) (pid_boosting_predict_calls X_test)"
    by (simp add: pid_boosting_predict_calls_def)
  obtain ff where ff: "pid_forest_fit_calls X_train y_train = Inr ff" "length ff = 2"
    "list_all (\<lambda>(model, est, X, y). X = X_train) ff"
    by (simp add: pid_forest_fit_calls_def)
  have fn: "pid_forest_notebook np sk s0 = Inr (ff, pid_forest_predict_calls X_test)"
    by (simp add: pid_forest_notebook_def pid_notebook_def sim' split ff bind_result_def)
  have fp: "list_all (\<lambda>(model, X). X = X_test) (pid_forest_predict_calls X_test)"
    by (simp add: pid_forest_predict_calls_def)
  show ?thesis
    apply (rule exI [of _ data], rule exI [of _ E], rule exI [of _ D],
        rule exI [of _ "cumsum E"], rule exI [of _ S], rule exI [of _ X_train],
        rule exI [of _ X_test], rule exI [of _ y_train], rule exI [of _ y_test],
        rule exI [of _ bf], rule exI [of _ ff])
    using sim' m X Xsc split yt bn bf(2,3) bp fn ff(2,3) fp
    unfolding X_train_def X_test_def Xs_def
    by (intro conjI) simp_all
qed

theorem pid_features_exclude_gains_witness:
  "numpy_contract counter_random \<and> sklearn_prep_contract identity_prep \<and>
   (\<exists>data E D I S X_train X_test y_train y_test boosting_fits forest_fits.
     pid_simulate counter_random 0 = Inr data \<and>
     pid_X data = Inr [(''Error'', E), (''Derivative'', D), (''Integral'', I), (''Setpoint'', S)] \<and>
     pid_split identity_prep data = Inr (X_train, X_test, y_train, y_test) \<and>
     X_train = take_rows (fst (split_indices identity_prep n_samples 0.2 42))
                 (as_array (map (standard_scale identity_prep) [E, D, I, S])) \<and>
     pid_boosting_notebook counter_random identity_prep 0
       = Inr (boosting_fits, pid_boosting_predict_calls X_test) \<and>
     list_all (\<lambda>(model, est, X, y). X = X_train) boosting_fits \<and>
     pid_forest_notebook counter_random identity_prep 0
       = Inr (forest_fits, pid_forest_predict_calls X_test) \<and>
     list_all (\<lambda>(model, est, X, y). X = X_train) forest_fits)"
  using pid_features_exclude_gains [OF counter_random_contract identity_prep_contract, of 0]
    counter_random_contract identity_prep_contract
  by blast

section \<open>Consistency of the tables\<close>

lemma rows_are_Nil [simp]: "rows_are n [] = True"
  by (simp add: rows_are_def)

lemma rows_are_Cons [simp]: "rows_are n ((l, c) # t) = (length c = n \<and> rows_are n t)"
  by (simp add: rows_are_def)

lemma n_rows_Cons [simp]: "n_rows ((l, c) # t) = length c"
  by (simp add: n_rows_def)

lemma floats_of_FloatCell [simp]: "floats_of (map FloatCell xs) = Inr xs"
  by (induction xs) simp_all

lemma floats_of_IntCell [simp]: "floats_of (map IntCell xs) = Inr (map of_int xs)"
  by (induction xs) simp_all

lemma days_of_DayCell [simp]: "days_of (map (\<lambda>i. DayCell (f i)) xs) = Inr (map f xs)"
  by (induction xs) simp_all

lemma length_rolling_mean [simp]: "length (rolling_mean w xs) = length xs"
  by (simp add: rolling_mean_def)

lemma length_date_range [simp]: "length (date_range start n) = n"
  by (simp add: date_range_def)

lemma np_flatten_column [simp]: "np_flatten (as_array [c]) = c"
proof -
  have "concat (transpose [c]) = c"
    by (induction c) simp_all
  then show ?thesis by (simp add: np_flatten_def as_array_def)
qed

lemma length_np_plus [simp]: "length (np_plus xs k) = length xs"
  by (simp add: np_plus_def)

lemma train_test_split_ok:
  "sklearn_prep_contract sk \<Longrightarrow> n_rows X = n_rows y \<Longrightarrow>
     \<exists>r. train_test_split sk X y t rs = Inr r"
  using split_indices_in_range [of sk "n_rows y" t rs]
  by (simp add: train_test_split_def split_beta)

lemma spam_consistent:
  assumes sk: "sklearn_prep_contract sk"
  shows "\<exists>df X y. DataFrame spam_data = Inr df \<and> rows_are 20 df \<and>
     spam_inputs df = Inr (X, y) \<and> aligned X y \<and> n_rows y = 20 \<and>
     (\<exists>r. spam_split sk = Inr r)"
proof -
  have df: "DataFrame spam_data = Inr spam_data" and rows: "rows_are 20 spam_data"
    by (simp_all add: DataFrame_def spam_data_def)
  define X where "X = [(''WordCount'', the (map_of spam_data ''WordCount'')),
    (''CapFrequency'', the (map_of spam_data ''CapFrequency''))]"
  define y where "y = [(''Spam'', the (map_of spam_data ''Spam''))]"
  have inp: "spam_inputs spam_data = Inr (X, y)"
    by (simp add: spam_inputs_def get_series_def get_column_def bind_result_def X_def y_def
        spam_data_def)
  have al: "aligned X y" and ny: "n_rows y = 20" and nx: "n_rows X = 20"
    by (simp_all add: aligned_def X_def y_def spam_data_def)
  have "\<exists>r. spam_split sk = Inr r"
    using train_test_split_ok [OF sk, where X = X and y = y and t = "0.2" and rs = 42] nx ny
    by (simp add: spam_split_def df inp bind_result_def)
  with df rows inp al ny show ?thesis by blast
qed

lemma loan_consistent:
  assumes np: "numpy_contract np" and sk: "sklearn_prep_contract sk"
  shows "\<exists>df X y. loan_generate np s0 = Inr df \<and> rows_are n_samples df \<and>
     loan_inputs df = Inr (X, y) \<and> aligned X y \<and> n_rows y = n_samples \<and>
     (\<exists>r. loan_split np sk s0 = Inr r)"
proof -
  define r1 where "r1 = random_randint np 30000 150000 n_samples (random_seed np 42)"
  define r2 where "r2 = random_randint np 18 70 n_samples (snd r1)"
  define r3 where "r3 = random_randint np 600 800 n_samples (snd r2)"
  define r4 where "r4 = random_choice np [0, 1] [0.7, 0.3] n_samples (snd r3)"
  define df where "df = [(''Income'', fst r1), (''Age'', fst r2), (''Credit Score'', fst r3),
            (''Loan Default'', fst r4)]"
  have l: "length (fst r1) = n_samples" "length (fst r2) = n_samples"
    "length (fst r3) = n_samples" "length (fst r4) = n_samples"
    by (simp_all add: r1_def r2_def r3_def r4_def randint_length [OF np] choice_length [OF np])
  have gen: "loan_generate np s0 = Inr df"
    unfolding loan_generate_def np_random_seed_def df_def r1_def r2_def r3_def r4_def
    by (simp add: Let_def split_beta DataFrame_def randint_length [OF np]
        choice_length [OF np])
  have rows: "rows_are n_samples df" by (simp add: df_def l)
  define X where "X = [(''Income'', fst r1), (''Age'', fst r2), (''Credit Score'', fst r3)]"
  define y where "y = [(''Loan Default'', fst r4)]"
  have inp: "loan_inputs df = Inr (X, y)"
    by (simp add: loan_inputs_def get_series_def get_column_def bind_result_def X_def y_def
        df_def)
  have al: "aligned X y" and ny: "n_rows y = n_samples" and nx: "n_rows X = n_samples"
    by (simp_all add: aligned_def X_def y_def l)
  have "\<exists>r. loan_split np sk s0 = Inr r"
    using train_test_split_ok [OF sk, where X = X and y = y and t = "0.2" and rs = 42] nx ny
    by (simp add: loan_split_def gen inp bind_result_def)
  with gen rows inp al ny show ?thesis by blast
qed

lemma house_consistent:
  assumes np: "numpy_contract np" and sk: "sklearn_prep_contract sk"
  shows "aligned (fst house_small) (snd house_small) \<and>
    (\<exists>X y. house_generate np s0 = Inr (X, y) \<and> aligned X y \<and> n_rows y = 1000 \<and>
       (\<exists>r. house_split np sk s0 = Inr r))"
proof -
  define r1 where "r1 = random_uniform np 1000 4000 1000 (random_seed np 42)"
  define r2 where "r2 = random_normal np 0 50000 1000 (snd r1)"
  define X where "X = as_array [fst r1]"
  define y where "y = as_array [map2 (+) (np_plus (np_scale 100 (fst r1)) 50000) (fst r2)]"
  have l: "length (fst r1) = 1000" "length (fst r2) = 1000"
    by (simp_all add: r1_def r2_def uniform_length [OF np] normal_length [OF np])
  have gen: "house_generate np s0 = Inr (X, y)"
    unfolding house_generate_def np_random_seed_def X_def y_def r1_def r2_def
    by (simp add: Let_def split_beta bind_result_def np_elementwise_same
        uniform_length [OF np] normal_length [OF np])
  have al: "aligned X y" and ny: "n_rows y = 1000" and nx: "n_rows X = 1000"
    by (simp_all add: aligned_def X_def y_def l as_array_def)
  have "\<exists>r. house_split np sk s0 = Inr r"
    using train_test_split_ok [OF sk, where X = X and y = y and t = "0.2" and rs = 42] nx ny
    by (simp add: house_split_def gen bind_result_def)
  moreover have "aligned (fst house_small) (snd house_small)"
    by (simp add: house_small_def aligned_def as_array_def)
  ultimately show ?thesis using gen al ny by blast
qed

lemma fruit_consistent:
  assumes np: "numpy_contract np" and sk: "sklearn_prep_contract sk"
  shows "\<exists>df X y. fruit_generate np s0 = Inr df \<and> rows_are 100 df \<and>
     fruit_inputs df = Inr (X, y) \<and> aligned X y \<and> n_rows y = 100 \<and>
     (\<exists>r. fruit_split np sk s0 = Inr r)"
proof -
  define r1 where "r1 = random_randint np 100 300 100 (random_seed np 42)"
  define r2 where "r2 = random_randint np 1 10 100 (snd r1)"
  define lab where "lab = map2 (\<lambda>a b. if 200 < a \<and> 5 < b then ''Apple'' else ''Orange'')
      (fst r1) (fst r2)"
  define df where "df = [(''Feature1'', map IntCell (fst r1)), (''Feature2'', map IntCell (fst r2)),
                 (''Label'', map StrCell lab)]"
  have l: "length (fst r1) = 100" "length (fst r2) = 100" "length lab = 100"
    by (simp_all add: r1_def r2_def lab_def randint_length [OF np])
  have gen: "fruit_generate np s0 = Inr df"
    unfolding fruit_generate_def np_random_seed_def df_def lab_def r1_def r2_def
    by (simp add: Let_def split_beta bind_result_def np_elementwise_same DataFrame_def
        randint_length [OF np])
  have rows: "rows_are 100 df" by (simp add: df_def l)
  define X where "X = values_of [(''Feature1'', map IntCell (fst r1)),
     (''Feature2'', map IntCell (fst r2))]"
  define y where "y = values_of [(''Label'', map StrCell lab)]"
  have inp: "fruit_inputs df = Inr (X, y)"
    by (simp add: fruit_inputs_def get_series_def get_column_def bind_result_def X_def y_def
        df_def)
  have al: "aligned X y" and ny: "n_rows y = 100" and nx: "n_rows X = 100"
    by (simp_all add: aligned_def X_def y_def l values_of_def as_array_def)
  have "\<exists>r. fruit_split np sk s0 = Inr r"
    using train_test_split_ok [OF sk, where X = X and y = y and t = "0.3" and rs = 42] nx ny
    by (simp add: fruit_split_def gen inp bind_result_def)
  with gen rows inp al ny show ?thesis by blast
qed


lemma floats_of_map_IntCell [simp]:
  "floats_of (map (\<lambda>x. IntCell (f x)) xs) = Inr (map (\<lambda>x. of_int (f x)) xs)"
  by (induction xs) simp_all

lemma rows_are_n_rows: "t \<noteq> [] \<Longrightarrow> rows_are n t \<Longrightarrow> n_rows t = n"
  by (cases t) auto

lemma rows_are_update_column:
  "rows_are n df \<Longrightarrow> length vals = n \<Longrightarrow> rows_are n (update_column name vals df)"
  by (induction df) auto

lemma rows_are_zip_names:
  "rows_are n X \<Longrightarrow> rows_are n (zip names (map (\<lambda>(i, c). map FloatCell c) X))"
proof (induction X arbitrary: names)
  case Nil
  then show ?case by simp
next
  case (Cons a X)
  then show ?case by (cases names; cases a) simp_all
qed

lemma data_library_make_classification:
  assumes "data_library_contract lib" and "0 < f"
  shows "length (fst (make_classification lib n f i c r)) = f"
    and "rows_are n (fst (make_classification lib n f i c r))"
    and "length (snd (make_classification lib n f i c r)) = n"
proof -
  from assms(1) have "\<forall>n f i c r. 0 < f \<longrightarrow>
         length (fst (make_classification lib n f i c r)) = f \<and>
         rows_are n (fst (make_classification lib n f i c r)) \<and>
         length (snd (make_classification lib n f i c r)) = n"
    unfolding data_library_contract_def by (rule conjunct1)
  with assms(2) show "length (fst (make_classification lib n f i c r)) = f"
    and "rows_are n (fst (make_classification lib n f i c r))"
    and "length (snd (make_classification lib n f i c r)) = n"
    by blast+
qed

lemma data_library_load_iris:
  assumes "data_library_contract lib"
  shows "fst (load_iris lib) \<noteq> []"
    and "rows_are (length (snd (load_iris lib))) (fst (load_iris lib))"
proof -
  from assms have "fst (load_iris lib) \<noteq> [] \<and>
      rows_are (length (snd (load_iris lib))) (fst (load_iris lib))"
    unfolding data_library_contract_def by (elim conjE, intro conjI)
  then show "fst (load_iris lib) \<noteq> []"
    and "rows_are (length (snd (load_iris lib))) (fst (load_iris lib))" by simp_all
qed

lemma data_library_count_vectorizer:
  assumes "data_library_contract lib" and "count_vectorizer lib docs = Inr M"
  shows "M \<noteq> []" and "rows_are (length docs) M"
proof -
  from assms(1) have "\<forall>docs M. count_vectorizer lib docs = Inr M \<longrightarrow>
      M \<noteq> [] \<and> rows_are (length docs) M"
    unfolding data_library_contract_def by (elim conjE)
  with assms(2) show "M \<noteq> []" and "rows_are (length docs) M" by blast+
qed

lemma data_library_polynomial_features:
  assumes "data_library_contract lib"
  shows "polynomial_features lib d X \<noteq> []"
    and "rows_are (n_rows X) (polynomial_features lib d X)"
proof -
  from assms have "\<forall>d X. polynomial_features lib d X \<noteq> [] \<and>
         rows_are (n_rows X) (polynomial_features lib d X)"
    unfolding data_library_contract_def by (elim conjE)
  then show "polynomial_features lib d X \<noteq> []"
    and "rows_are (n_rows X) (polynomial_features lib d X)" by blast+
qed

lemma data_library_interpolate:
  assumes "data_library_contract lib" and "NaNCell \<notin> set col"
  shows "interpolate lib col = col"
proof -
  from assms(1) have "\<forall>col. length (interpolate lib col) = length col \<and>
         (NaNCell \<notin> set col \<longrightarrow> interpolate lib col = col)"
    unfolding data_library_contract_def by (elim conjE)
  with assms(2) show ?thesis by blast
qed

lemma constant_library_contract: "data_library_contract constant_library"
  unfolding data_library_contract_def constant_library_def
  by (auto simp: as_array_def rows_are_def list_all_iff set_zip split: if_splits)

lemma wearable_consistent:
  assumes np: "numpy_contract np" and sk: "sklearn_prep_contract sk"
  shows "(\<exists>df X y. DataFrame wearable_small_data = Inr df \<and> rows_are 10 df \<and>
       wearable_features df = Inr (X, y) \<and> aligned X y \<and> n_rows y = 10) \<and>
    (\<exists>df X y X_scaled. wearable_generate np s0 = Inr df \<and> rows_are 1000 df \<and>
       wearable_features df = Inr (X, y) \<and> aligned X y \<and>
       wearable_inputs sk df = Inr (X_scaled, y) \<and> aligned X_scaled y \<and> n_rows y = 1000 \<and>
       (\<exists>r. wearable_split np sk s0 = Inr r))"
proof -
  have small: "\<exists>df X y. DataFrame wearable_small_data = Inr df \<and> rows_are 10 df \<and>
       wearable_features df = Inr (X, y) \<and> aligned X y \<and> n_rows y = 10"
    by (simp add: DataFrame_def wearable_small_data_def wearable_features_def drop_column_def
        get_series_def get_column_def bind_result_def aligned_def)
  define r1 where "r1 = random_randint np 60 100 1000 (random_seed np 42)"
  define r2 where "r2 = random_randint np 500 2500 1000 (snd r1)"
  define r3 where "r3 = random_uniform np 36.0 37.5 1000 (snd r2)"
  define r4 where "r4 = random_randint np 1 6 1000 (snd r3)"
  define r5 where "r5 = random_randint np 4 9 1000 (snd r4)"
  define r6 where "r6 = random_choice np [0, 1] [0.7, 0.3] 1000 (snd r5)"
  define X where "X = [(''heart_rate'', map IntCell (fst r1)), (''steps'', map IntCell (fst r2)),
            (''temperature'', map FloatCell (fst r3)),
            (''activity_level'', map IntCell (fst r4)),
            (''sleep_duration'', map IntCell (fst r5))]"
  define y where "y = [(''label'', map IntCell (fst r6))]"
  define df where "df = X @ y"
  define Xs where "Xs = as_array (map (standard_scale sk)
     [map of_int (fst r1), map of_int (fst r2), fst r3, map of_int (fst r4),
      map of_int (fst r5)])"
  have l: "length (fst r1) = 1000" "length (fst r2) = 1000" "length (fst r3) = 1000"
    "length (fst r4) = 1000" "length (fst r5) = 1000" "length (fst r6) = 1000"
    by (simp_all add: r1_def r2_def r3_def r4_def r5_def r6_def randint_length [OF np]
        choice_length [OF np] uniform_length [OF np])
  have gen: "wearable_generate np s0 = Inr df"
    unfolding wearable_generate_def np_random_seed_def df_def X_def y_def
      r1_def r2_def r3_def r4_def r5_def r6_def
    by (simp add: Let_def split_beta DataFrame_def randint_length [OF np]
        choice_length [OF np] uniform_length [OF np])
  have rows: "rows_are 1000 df" by (simp add: df_def X_def y_def l)
  have feat: "wearable_features df = Inr (X, y)"
    by (simp add: wearable_features_def drop_column_def get_series_def get_column_def
        bind_result_def df_def X_def y_def)
  have inp: "wearable_inputs sk df = Inr (Xs, y)"
    by (simp add: wearable_inputs_def feat bind_result_def X_def fit_transform_def Xs_def)
  have sl: "length (standard_scale sk c) = length c" for c
    using sk by (rule standard_scale_length)
  have al: "aligned X y" and als: "aligned Xs y" and ny: "n_rows y = 1000"
    and nx: "n_rows Xs = 1000"
    by (simp_all add: aligned_def X_def y_def Xs_def l as_array_def sl)
  have "\<exists>r. wearable_split np sk s0 = Inr r"
    using train_test_split_ok [OF sk, where X = Xs and y = y and t = "0.1" and rs = 42] nx ny
    by (simp add: wearable_split_def gen inp bind_result_def)
  with gen rows feat inp al als ny small show ?thesis by blast
qed

lemma fault_consistent:
  assumes lib: "data_library_contract lib" and sk: "sklearn_prep_contract sk"
  shows "\<exists>X y df. fault_generate lib s0 = Inr (X, y, df) \<and> rows_are 1000 df \<and>
     aligned X (as_array [y]) \<and> n_rows (as_array [y]) = 1000 \<and>
     (\<exists>r. fault_split lib sk s0 = Inr r)"
proof -
  define X where "X = fst (make_classification lib 1000 20 10 2 42)"
  define y where "y = snd (make_classification lib 1000 20 10 2 42)"
  define names where "names = map (\<lambda>i. ''Feature_'' @ str_nat (i + 1)) [0..<length X]"
  define df0 where "df0 = zip names (map (\<lambda>(i, c). map FloatCell c) X)"
  define df where "df = update_column ''Target'' (map IntCell y) df0"
  have lX: "length X = 20" and rX: "rows_are 1000 X" and ly: "length y = 1000"
    unfolding X_def y_def using data_library_make_classification [OF lib, of 20] by simp_all
  have ne: "df0 \<noteq> []" using lX by (auto simp: df0_def names_def)
  have r0: "rows_are 1000 df0" unfolding df0_def using rX by (rule rows_are_zip_names)
  have n0: "n_rows df0 = 1000" using ne r0 by (rule rows_are_n_rows)
  have ln: "length names = length X" by (simp add: names_def)
  have frame: "DataFrame_of_array X names = Inr df0"
    by (simp add: DataFrame_of_array_def ln DataFrame_def n0 r0 flip: df0_def)
  have "fault_generate lib s0 =
      bind_result (DataFrame_of_array X names) (\<lambda>df.
        bind_result (set_column df ''Target'' (map IntCell y)) (\<lambda>df'. Inr (X, y, df')))"
    by (simp add: fault_generate_def Let_def split_beta X_def y_def names_def)
  then have gen: "fault_generate lib s0 = Inr (X, y, df)"
    by (simp add: bind_result_def set_column_def frame n0 ly ne df_def)
  have rows: "rows_are 1000 df" unfolding df_def using r0 ly by (simp add: rows_are_update_column)
  have nX: "n_rows X = 1000" using lX rX by (intro rows_are_n_rows) auto
  have al: "aligned X (as_array [y])" and ny: "n_rows (as_array [y]) = 1000"
    using rX ly by (simp_all add: aligned_def as_array_def)
  have "\<exists>r. fault_split lib sk s0 = Inr r"
    using train_test_split_ok [OF sk, where X = X and y = "as_array [y]" and t = "0.2" and rs = 42]
      nX ny
    by (simp add: fault_split_def gen bind_result_def)
  with gen rows al ny show ?thesis by blast
qed

lemma text_spam_consistent:
  assumes lib: "data_library_contract lib" and sk: "sklearn_prep_contract sk"
    and inp: "text_spam_inputs lib = Inr (X, y)"
  shows "aligned X y \<and> n_rows y = 4 \<and> (\<exists>r. text_spam_split lib sk = Inr r)"
proof -
  from inp obtain M where M: "count_vectorizer lib emails = Inr M" and X: "X = M"
    and y: "y = as_array [labels]"
    by (auto simp: text_spam_inputs_def bind_result_def split: sum.splits)
  have le: "length emails = 4" by (simp add: emails_def)
  from data_library_count_vectorizer [OF lib M] le X
  have ne: "X \<noteq> []" and rX: "rows_are 4 X" by simp_all
  have nX: "n_rows X = 4" using ne rX by (rule rows_are_n_rows)
  have ny: "n_rows y = 4" by (simp add: y as_array_def labels_def)
  have al: "aligned X y" using rX by (simp add: aligned_def ny) (simp add: y as_array_def labels_def)
  have "\<exists>r. text_spam_split lib sk = Inr r"
    using train_test_split_ok [OF sk, where X = X and y = y and t = "0.2" and rs = 42] nX ny
    by (simp add: text_spam_split_def inp bind_result_def)
  with al ny show ?thesis by blast
qed

lemma iris_consistent:
  assumes lib: "data_library_contract lib" and sk: "sklearn_prep_contract sk"
  shows "aligned (fst (iris_inputs lib)) (snd (iris_inputs lib)) \<and>
     (\<exists>r. iris_split lib sk = Inr r)"
proof -
  define X where "X = fst (load_iris lib)"
  define t where "t = snd (load_iris lib)"
  have inp: "iris_inputs lib = (X, as_array [t])"
    by (simp add: iris_inputs_def Let_def X_def t_def)
  have ne: "X \<noteq> []" and rX: "rows_are (length t) X"
    unfolding X_def t_def using data_library_load_iris [OF lib] by simp_all
  have nX: "n_rows X = length t" using ne rX by (rule rows_are_n_rows)
  have ny: "n_rows (as_array [t]) = length t" by (simp add: as_array_def)
  have al: "aligned X (as_array [t])" using rX by (simp add: aligned_def ny) (simp add: as_array_def)
  have "\<exists>r. iris_split lib sk = Inr r"
    using train_test_split_ok [OF sk, where X = X and y = "as_array [t]" and t = "0.2" and rs = 42]
      nX ny
    by (simp add: iris_split_def inp)
  with al inp show ?thesis by simp
qed

lemma pid_consistent:
  assumes np: "numpy_contract np" and sk: "sklearn_prep_contract sk"
  shows "\<exists>data X y X_scaled. pid_simulate np s0 = Inr data \<and> rows_are n_samples data \<and>
     pid_X data = Inr X \<and> pid_y data = Inr y \<and> aligned X y \<and>
     pid_X_scaled sk data = Inr X_scaled \<and> aligned X_scaled y \<and> n_rows y = n_samples \<and>
     (\<exists>r. pid_split sk data = Inr r)"
proof -
  from pid_simulate_ok [OF np, of s0] obtain E D S where
    l: "length E = n_samples" "length D = n_samples" "length S = n_samples" and
    sim: "pid_simulate np s0 =
       Inr [(''Error'', E), (''Derivative'', D), (''Integral'', cumsum E),
            (''Setpoint'', S),
            (''Kp'', map2 (+) (np_shift 2 (np_scale 0.5 E)) (np_scale 0.1 D)),
            (''Ki'', np_shift 0.1 (np_scale 0.05 (cumsum E))),
            (''Kd'', np_shift 0.02 (np_scale 0.01 D))]"
    by blast
  define X where "X = [(''Error'', E), (''Derivative'', D), (''Integral'', cumsum E),
            (''Setpoint'', S)]"
  define y where "y = [(''Kp'', map2 (+) (np_shift 2 (np_scale 0.5 E)) (np_scale 0.1 D)),
            (''Ki'', np_shift 0.1 (np_scale 0.05 (cumsum E))),
            (''Kd'', np_shift 0.02 (np_scale 0.01 D))]"
  define data where "data = X @ y"
  define Xs where "Xs = as_array (map (standard_scale sk) [E, D, cumsum E, S])"
  have sim': "pid_simulate np s0 = Inr data" by (simp add: sim data_def X_def y_def)
  have rows: "rows_are n_samples data" by (simp add: data_def X_def y_def l length_cumsum)
  have pX: "pid_X data = Inr X"
    by (simp add: pid_X_def get_column_def data_def X_def y_def)
  have py: "pid_y data = Inr y"
    by (simp add: pid_y_def get_column_def data_def X_def y_def)
  have pXs: "pid_X_scaled sk data = Inr Xs"
    by (simp add: pid_X_scaled_def pX bind_result_def fit_transform_def Xs_def X_def)
  have sl: "length (standard_scale sk c) = length c" for c
    using sk by (rule standard_scale_length)
  have al: "aligned X y" and als: "aligned Xs y" and ny: "n_rows y = n_samples"
    and nx: "n_rows Xs = n_samples"
    by (simp_all add: aligned_def X_def y_def Xs_def l as_array_def sl length_cumsum)
  have "\<exists>r. pid_split sk data = Inr r"
    using train_test_split_ok [OF sk, where X = Xs and y = y and t = "0.2" and rs = 42] nx ny
    by (simp add: pid_split_def pXs py bind_result_def)
  with sim' rows pX py al pXs als ny show ?thesis by blast
qed

lemma stock_consistent:
  assumes np: "numpy_contract np" and sk: "sklearn_prep_contract sk"
    and lib: "data_library_contract lib"
  shows "\<exists>df0 df1 df2 df3 df4 X y.
     stock_generate np s0 = Inr df0 \<and> rows_are n_days df0 \<and>
     stock_interpolate lib df0 = Inr df1 \<and> rows_are n_days df1 \<and>
     stock_moving_average df1 = Inr df2 \<and> rows_are n_days df2 \<and>
     stock_date_to_days df2 = Inr df3 \<and> rows_are n_days df3 \<and>
     stock_normalize sk df3 = Inr df4 \<and> rows_are n_days df4 \<and>
     stock_inputs lib df4 = Inr (X, y) \<and> aligned X y \<and> n_rows y = n_days \<and>
     (\<exists>r. stock_split np lib sk s0 = Inr r)"
proof -
  define prices where
    "prices = np_shift initial_price (cumsum (fst (random_normal np 0 volatility n_days s0)))"
  define ds where "ds = map int [0..<n_days]"
  define days where "days = map (\<lambda>d. d - Min (set ds)) ds"
  define ma where "ma = rolling_mean 5 prices"
  define sd where "sd = standard_scale sk (map of_int days)"
  define sp where "sp = standard_scale sk prices"
  define df0 where "df0 = [(''Date'', date_range 0 n_days), (''Stock Price'', map FloatCell prices)]"
  define df2 where "df2 = df0 @ [(''Moving Average'', ma)]"
  define df3 where "df3 = [(''Date'', map IntCell days), (''Stock Price'', map FloatCell prices),
      (''Moving Average'', ma)]"
  define df4 where "df4 = [(''Date'', map FloatCell sd), (''Stock Price'', map FloatCell sp),
      (''Moving Average'', ma)]"
  define X where "X = polynomial_features lib poly_degree (as_array [sd])"
  define y where "y = as_array [sp]"
  have sl: "length (standard_scale sk c) = length c" for c
    using sk by (rule standard_scale_length)
  have l: "length prices = n_days" "length ds = n_days" "length days = n_days"
    "length ma = n_days" "length sd = n_days" "length sp = n_days"
    by (simp_all add: prices_def ds_def days_def ma_def sd_def sp_def sl length_cumsum
        normal_length [OF np])
  have gen: "stock_generate np s0 = Inr df0"
    unfolding stock_generate_def df0_def prices_def
    by (simp add: Let_def split_beta DataFrame_def length_cumsum normal_length [OF np])
  have nonan: "NaNCell \<notin> set (map FloatCell prices)" by auto
  have s1: "stock_interpolate lib df0 = Inr df0"
    by (simp add: stock_interpolate_def get_column_def bind_result_def set_column_def
        data_library_interpolate [OF lib nonan] l df0_def)
  have s2: "stock_moving_average df0 = Inr df2"
    by (simp add: stock_moving_average_def get_column_def bind_result_def set_column_def
        l df0_def df2_def ma_def)
  have dd: "days_since_min (date_range 0 n_days) = Inr (map IntCell days)"
    by (simp add: days_since_min_def date_range_def bind_result_def days_def ds_def comp_def)
  have s3: "stock_date_to_days df2 = Inr df3"
    by (simp add: stock_date_to_days_def get_column_def bind_result_def set_column_def dd
        l df0_def df2_def df3_def)
  have ft: "floats_of (map IntCell days) = Inr (map of_int days)" by simp
  have s4: "stock_normalize sk df3 = Inr df4"
    by (simp add: stock_normalize_def get_column_def bind_result_def set_column_def
        fit_transform_def as_array_def l sl df3_def df4_def sd_def sp_def)
  have inp: "stock_inputs lib df4 = Inr (X, y)"
    by (simp add: stock_inputs_def get_series_def get_column_def bind_result_def values_of_def
        df4_def X_def y_def)
  have rows: "rows_are n_days df0" "rows_are n_days df2" "rows_are n_days df3"
    "rows_are n_days df4"
    by (simp_all add: df0_def df2_def df3_def df4_def l)
  have ny: "n_rows y = n_days" by (simp add: y_def as_array_def l)
  have na: "n_rows (as_array [sd]) = n_days" by (simp add: as_array_def l)
  have rX: "rows_are n_days X" and ne: "X \<noteq> []"
    using data_library_polynomial_features [OF lib, where d = poly_degree and X = "as_array [sd]"]
    by (simp_all add: X_def na)
  have nX: "n_rows X = n_days" using ne rX by (rule rows_are_n_rows)
  have al: "aligned X y" using rX by (simp add: aligned_def ny) (simp add: y_def as_array_def l)
  have "\<exists>r. stock_split np lib sk s0 = Inr r"
    using train_test_split_ok [OF sk, where X = X and y = y and t = "0.2" and rs = 42] nX ny
    by (simp add: stock_split_def gen s1 s2 s3 s4 inp bind_result_def)
  with gen s1 s2 s3 s4 inp rows al ny show ?thesis by blast
qed


text \<open>
  Claim C3. In every notebook the table handed to the library is consistent: when the
  library functions keep their documented shapes, every frame that is built has the same
  number of rows in all its columns, after its construction and after each later
  assignment to it, and the feature table and the target passed to the train/test split
  have the same number of rows in every column, so that the split accepts them. The two
  PID notebooks share their cells up to the split, and so do the two copies of the Gaussian
  Naive Bayes notebook. In the text spam notebook the vectorizer may raise; the statement
  is about the case where it returns.
\<close>

theorem tables_stay_consistent:
  assumes np: "numpy_contract np" and sk: "sklearn_prep_contract sk"
    and lib: "data_library_contract lib"
  shows
   "(\<exists>data X y X_scaled. pid_simulate np s0 = Inr data \<and> rows_are n_samples data \<and>
       pid_X data = Inr X \<and> pid_y data = Inr y \<and> aligned X y \<and>
       pid_X_scaled sk data = Inr X_scaled \<and> aligned X_scaled y \<and> n_rows y = n_samples \<and>
       (\<exists>r. pid_split sk data = Inr r)) \<and>
    (\<exists>df X y. DataFrame spam_data = Inr df \<and> rows_are 20 df \<and>
       spam_inputs df = Inr (X, y) \<and> aligned X y \<and> n_rows y = 20 \<and>
       (\<exists>r. spam_split sk = Inr r)) \<and>
    (\<exists>df0 df1 df2 df3 df4 X y.
       stock_generate np s0 = Inr df0 \<and> rows_are n_days df0 \<and>
       stock_interpolate lib df0 = Inr df1 \<and> rows_are n_days df1 \<and>
       stock_moving_average df1 = Inr df2 \<and> rows_are n_days df2 \<and>
       stock_date_to_days df2 = Inr df3 \<and> rows_are n_days df3 \<and>
       stock_normalize sk df3 = Inr df4 \<and> rows_are n_days df4 \<and>
       stock_inputs lib df4 = Inr (X, y) \<and> aligned X y \<and> n_rows y = n_days \<and>
       (\<exists>r. stock_split np lib sk s0 = Inr r)) \<and>
    (aligned (fst house_small) (snd house_small) \<and>
     (\<exists>X y. house_generate np s0 = Inr (X, y) \<and> aligned X y \<and> n_rows y = 1000 \<and>
       (\<exists>r. house_split np sk s0 = Inr r))) \<and>
    (\<exists>df X y. loan_generate np s0 = Inr df \<and> rows_are n_samples df \<and>
       loan_inputs df = Inr (X, y) \<and> aligned X y \<and> n_rows y = n_samples \<and>
       (\<exists>r. loan_split np sk s0 = Inr r)) \<and>
    (\<exists>X y df. fault_generate lib s0 = Inr (X, y, df) \<and> rows_are 1000 df \<and>
       aligned X (as_array [y]) \<and> n_rows (as_array [y]) = 1000 \<and>
       (\<exists>r. fault_split lib sk s0 = Inr r)) \<and>
    (\<forall>X y. text_spam_inputs lib = Inr (X, y) \<longrightarrow>
       aligned X y \<and> n_rows y = 4 \<and> (\<exists>r. text_spam_split lib sk = Inr r)) \<and>
    (aligned (fst (iris_inputs lib)) (snd (iris_inputs lib)) \<and>
       (\<exists>r. iris_split lib sk = Inr r)) \<and>
    (\<exists>df X y. fruit_generate np s0 = Inr df \<and> rows_are 100 df \<and>
       fruit_inputs df = Inr (X, y) \<and> aligned X y \<and> n_rows y = 100 \<and>
       (\<exists>r. fruit_split np sk s0 = Inr r)) \<and>
    ((\<exists>df X y. DataFrame wearable_small_data = Inr df \<and> rows_are 10 df \<and>
        wearable_features df = Inr (X, y) \<and> aligned X y \<and> n_rows y = 10) \<and>
     (\<exists>df X y X_scaled. wearable_generate np s0 = Inr df \<and> rows_are 1000 df \<and>
        wearable_features df = Inr (X, y) \<and> aligned X y \<and>
        wearable_inputs sk df = Inr (X_scaled, y) \<and> aligned X_scaled y \<and> n_rows y = 1000 \<and>
        (\<exists>r. wearable_split np sk s0 = Inr r)))"
  apply (intro conjI)
                   apply (rule pid_consistent [OF np sk])
                  apply (rule spam_consistent [OF sk])
                 apply (rule stock_consistent [OF np sk lib])
                apply (rule house_consistent [OF np sk, THEN conjunct1])
               apply (rule house_consistent [OF np sk, THEN conjunct2])
              apply (rule loan_consistent [OF np sk])
             apply (rule fault_consistent [OF lib sk])
            apply (intro allI impI, rule text_spam_consistent [OF lib sk], assumption)
           apply (rule iris_consistent [OF lib sk, THEN conjunct1])
          apply (rule iris_consistent [OF lib sk, THEN conjunct2])
         apply (rule fruit_consistent [OF np sk])
        apply (rule wearable_consistent [OF np sk, THEN conjunct1])
  apply (rule wearable_consistent [OF np sk, THEN conjunct2])
  done

theorem tables_stay_consistent_witness:
  "numpy_contract counter_random \<and> sklearn_prep_contract identity_prep \<and>
   data_library_contract constant_library \<and>
   (\<exists>data X y X_scaled. pid_simulate counter_random 0 = Inr data \<and>
       rows_are n_samples data \<and>
       pid_X data = Inr X \<and> pid_y data = Inr y \<and> aligned X y \<and>
       pid_X_scaled identity_prep data = Inr X_scaled \<and> aligned X_scaled y \<and>
       n_rows y = n_samples \<and> (\<exists>r. pid_split identity_prep data = Inr r)) \<and>
   (\<exists>X y. text_spam_inputs constant_library = Inr (X, y) \<and> aligned X y \<and> n_rows y = 4)"
proof -
  note t = tables_stay_consistent [OF counter_random_contract identity_prep_contract
      constant_library_contract, of "0 :: nat"]
  have inp: "text_spam_inputs constant_library
      = Inr (as_array [map (\<lambda>d. int (length d)) emails], as_array [labels])"
    by (simp add: text_spam_inputs_def constant_library_def bind_result_def emails_def)
  from t have pid: "\<exists>data X y X_scaled. pid_simulate counter_random 0 = Inr data \<and>
       rows_are n_samples data \<and>
       pid_X data = Inr X \<and> pid_y data = Inr y \<and> aligned X y \<and>
       pid_X_scaled identity_prep data = Inr X_scaled \<and> aligned X_scaled y \<and>
       n_rows y = n_samples \<and> (\<exists>r. pid_split identity_prep data = Inr r)"
    by (rule conjunct1)
  from t inp have "aligned (as_array [map (\<lambda>d. int (length d)) emails]) (as_array [labels])
      \<and> n_rows (as_array [labels]) = 4"
    by blast
  with inp pid counter_random_contract identity_prep_contract constant_library_contract
  show ?thesis by blast
qed

section \<open>Reproducibility of the generated data\<close>

lemma stock_generate_counter:
  "stock_generate counter_random s =
     Inr [(''Date'', date_range 0 n_days),
          (''Stock Price'',
             map FloatCell (np_shift initial_price
               (cumsum (map (\<lambda>i. 0 + volatility * real (s + i)) [0..<n_days]))))]"
  by (simp add: stock_generate_def counter_random_def Let_def DataFrame_def length_cumsum)

lemma stock_first_price:
  "map_of [(''Date'', date_range 0 n_days),
          (''Stock Price'',
             map FloatCell (np_shift initial_price
               (cumsum (map (\<lambda>i. 0 + volatility * real (s + i)) [0..<n_days]))))]
      ''Stock Price''
   = Some (FloatCell (initial_price + volatility * real s) #
       tl (map FloatCell (np_shift initial_price
               (cumsum (map (\<lambda>i. 0 + volatility * real (s + i)) [0..<n_days])))))"
proof -
  have "0 < n_days" by (simp add: n_days_def)
  then have "[0..<n_days] = 0 # [Suc 0..<n_days]" by (rule upt_conv_Cons)
  then show ?thesis
    by (simp add: np_shift_def cumsum_def)
qed

lemma stock_depends_on_state:
  "stock_generate counter_random 0 \<noteq> stock_generate counter_random 1"
proof
  assume "stock_generate counter_random 0 = stock_generate counter_random 1"
  then have "map_of [(''Date'', date_range 0 n_days),
          (''Stock Price'',
             map FloatCell (np_shift initial_price
               (cumsum (map (\<lambda>i. 0 + volatility * real (0 + i)) [0..<n_days]))))]
      ''Stock Price'' =
     map_of [(''Date'', date_range 0 n_days),
          (''Stock Price'',
             map FloatCell (np_shift initial_price
               (cumsum (map (\<lambda>i. 0 + volatility * real (1 + i)) [0..<n_days]))))]
      ''Stock Price''"
    unfolding stock_generate_counter by simp
  then show False
    unfolding stock_first_price by (simp add: volatility_def)
qed

text \<open>
  Claim C10, as the specification states it, counts the fault detection notebook among
  those that call \<^verbatim>\<open>np.random.seed(42)\<close> before sampling. Its call sequence contains no
  such call: its only random source is \<^verbatim>\<open>make_classification\<close> with
  \<^verbatim>\<open>random_state=42\<close>.
\<close>

theorem fault_detection_never_calls_seed:
  "\<not> calls_np_random_seed fault_detection_calls \<and>
   fault_detection_calls ! 0 = SeededGenerator ''make_classification'' 42"
  by (simp add: calls_np_random_seed_def fault_detection_calls_def)

text \<open>
  Claim C10, amended. Two executions of the data-generation step produce the same arrays,
  whatever the state of the global generator at the start, in both PID notebooks, loan
  default, wearable sensor, house prices and fruit classification, which call
  \<^verbatim>\<open>np.random.seed(42)\<close> before sampling, and in fault detection, which seeds
  \<^verbatim>\<open>make_classification\<close> through \<^verbatim>\<open>random_state=42\<close>. The stock price
  notebook is the only one that samples without seeding, and its data do depend on the state
  of the generator.
\<close>

theorem seeded_generation_is_reproducible:
  "(\<forall>s s'. pid_simulate np s = pid_simulate np s') \<and>
   (\<forall>s s'. loan_generate np s = loan_generate np s') \<and>
   (\<forall>s s'. wearable_generate np s = wearable_generate np s') \<and>
   (\<forall>s s'. house_generate np s = house_generate np s') \<and>
   (\<forall>s s'. fruit_generate np s = fruit_generate np s') \<and>
   (\<forall>s s'. fault_generate lib s = fault_generate lib s') \<and>
   notebooks_where calls_np_random_seed =
     [''pid_boosting'', ''pid_random_forest'', ''house_price'', ''loan_default'',
      ''fruit_classification'', ''wearable_sensor''] \<and>
   notebooks_where (\<lambda>cs. list_ex (\<lambda>c. c = SeededGenerator ''make_classification'' 42) cs)
     = [''fault_detection''] \<and>
   notebooks_where draws_unseeded = [''stock_price''] \<and>
   stock_generate counter_random 0 \<noteq> stock_generate counter_random 1"
proof -
  have gen: "(\<forall>s s'. pid_simulate np s = pid_simulate np s') \<and>
   (\<forall>s s'. loan_generate np s = loan_generate np s') \<and>
   (\<forall>s s'. wearable_generate np s = wearable_generate np s') \<and>
   (\<forall>s s'. house_generate np s = house_generate np s') \<and>
   (\<forall>s s'. fruit_generate np s = fruit_generate np s') \<and>
   (\<forall>s s'. fault_generate lib s = fault_generate lib s')"
    unfolding pid_simulate_def loan_generate_def wearable_generate_def house_generate_def
      fruit_generate_def fault_generate_def np_random_seed_def
    by (intro conjI allI refl)
  have calls: "notebooks_where calls_np_random_seed =
     [''pid_boosting'', ''pid_random_forest'', ''house_price'', ''loan_default'',
      ''fruit_classification'', ''wearable_sensor''] \<and>
   notebooks_where (\<lambda>cs. list_ex (\<lambda>c. c = SeededGenerator ''make_classification'' 42) cs)
     = [''fault_detection''] \<and>
   notebooks_where draws_unseeded = [''stock_price'']"
    by code_simp
  show ?thesis
    using gen calls stock_depends_on_state by (elim conjE) (intro conjI; assumption)
qed

theorem seeded_generation_is_reproducible_witness:
  "pid_simulate counter_random 0 = pid_simulate counter_random 7 \<and>
   fault_generate constant_library (0 :: nat) = fault_generate constant_library 7 \<and>
   stock_generate counter_random 0 \<noteq> stock_generate counter_random 1"
  using seeded_generation_is_reproducible [of counter_random constant_library]
  by (elim conjE) (intro conjI; (assumption | (drule spec, drule spec, assumption)))

section \<open>Ranges of the metrics\<close>

lemma ss_tot_nonneg: "0 \<le> ss_tot ys"
  unfolding ss_tot_def by (rule sum_list_nonneg) auto

lemma ss_res_nonneg: "0 \<le> ss_res ys ps"
  unfolding ss_res_def by (rule sum_list_nonneg) auto

lemma ss_tot_pos:
  assumes "not_constant ys"
  shows "0 < ss_tot ys"
proof (rule ccontr)
  assume "\<not> 0 < ss_tot ys"
  with ss_tot_nonneg [of ys] have "ss_tot ys = 0" by simp
  then have "\<forall>x \<in> set (map (\<lambda>t. (t - mean ys)\<^sup>2) ys). x = 0"
    unfolding ss_tot_def by (subst (asm) sum_list_nonneg_eq_0_iff) auto
  then have "\<forall>t \<in> set ys. t = mean ys" by simp
  with assms show False unfolding not_constant_def by metis
qed

lemma accuracy_in_unit_interval:
  assumes "length y_true = length y_pred" and "y_true \<noteq> []"
  shows "\<exists>a. accuracy_score y_true y_pred = Inr a \<and> 0 \<le> a \<and> a \<le> 1"
proof -
  let ?k = "length (filter (\<lambda>(t, p). t = p) (zip y_true y_pred))"
  have "?k \<le> length (zip y_true y_pred)" by (rule length_filter_le)
  with assms(1) have k: "?k \<le> length y_true" by simp
  from assms(2) have n: "0 < length y_true" by simp
  have "real ?k / real (length y_true) \<le> 1" using k n by simp
  moreover have "0 \<le> real ?k / real (length y_true)" by simp
  ultimately show ?thesis using assms by (simp add: accuracy_score_def)
qed

lemma r2_at_most_one:
  assumes "length y_true = length y_pred" and "not_constant y_true"
  shows "\<exists>r. r2_score y_true y_pred = Inr r \<and> r \<le> 1"
proof -
  from assms(2) have pos: "0 < ss_tot y_true" by (rule ss_tot_pos)
  have "0 \<le> ss_res y_true y_pred / ss_tot y_true"
    using ss_res_nonneg [of y_true y_pred] pos by simp
  then show ?thesis using assms(1) pos by (simp add: r2_score_def)
qed

lemma r2_unbounded_below:
  "\<exists>y_true y_pred r. length y_true = length y_pred \<and> not_constant y_true \<and>
     r2_score y_true y_pred = Inr r \<and> r < b"
proof -
  define d where "d = \<bar>b\<bar> + 1"
  have d1: "1 \<le> d" by (simp add: d_def)
  then have "d * 1 \<le> d * d" by (intro mult_left_mono) simp_all
  then have dd: "\<bar>b\<bar> + 1 \<le> d\<^sup>2" by (simp add: power2_eq_square d_def)
  have tot: "ss_tot [0, 1] = 1 / 2"
    by (simp add: ss_tot_def mean_def power2_eq_square)
  have res: "ss_res [0, 1] [0, 1 + d] = d\<^sup>2"
    by (simp add: ss_res_def)
  have r: "r2_score [0, 1] [0, 1 + d] = Inr (1 - 2 * d\<^sup>2)"
    by (simp add: r2_score_def tot res)
  have nc: "not_constant [0, 1]"
    unfolding not_constant_def by (rule bexI [of _ 0], rule bexI [of _ 1]) simp_all
  have "1 - 2 * d\<^sup>2 < b" using dd by linarith
  with r nc show ?thesis
    by (intro exI [of _ "[0, 1]"] exI [of _ "[0, 1 + d]"] exI [of _ "1 - 2 * d\<^sup>2"]) simp
qed

text \<open>
  Claim C4. For label vectors of equal length that are not empty, the accuracy lies in
  the closed interval from 0 to 1. For prediction and truth vectors of equal length whose
  truth is not constant, R-squared is at most 1; and it has no lower bound: below any number there
  is an R-squared of such a pair.
\<close>

theorem metric_ranges:
  "(length labels_true = length labels_pred \<and> labels_true \<noteq> [] \<longrightarrow>
      (\<exists>a. accuracy_score labels_true labels_pred = Inr a \<and> 0 \<le> a \<and> a \<le> 1)) \<and>
   (length y_true = length y_pred \<and> not_constant y_true \<longrightarrow>
      (\<exists>r. r2_score y_true y_pred = Inr r \<and> r \<le> 1)) \<and>
   (\<forall>b. \<exists>y_true y_pred r. length y_true = length y_pred \<and> not_constant y_true \<and>
      r2_score y_true y_pred = Inr r \<and> r < b)"
  using accuracy_in_unit_interval [of labels_true labels_pred]
    r2_at_most_one [of y_true y_pred] r2_unbounded_below
  by (intro conjI impI allI) simp_all

theorem metric_ranges_witness:
  "accuracy_score [1, 0, 1, 1 :: int] [1, 1, 1, 0] = Inr (1 / 2) \<and>
   (\<exists>a. accuracy_score [1, 0, 1, 1 :: int] [1, 1, 1, 0] = Inr a \<and> 0 \<le> a \<and> a \<le> 1) \<and>
   r2_score [1, 2, 3] [1, 2, 6] = Inr (- 7 / 2) \<and>
   (\<exists>r. r2_score [1, 2, 3] [1, 2, 6] = Inr r \<and> r \<le> 1)"
proof -
  have nc: "not_constant [1, 2, 3]"
    unfolding not_constant_def by (rule bexI [of _ 1], rule bexI [of _ 2]) simp_all
  have a: "accuracy_score [1, 0, 1, 1 :: int] [1, 1, 1, 0] = Inr (1 / 2)"
    by (simp add: accuracy_score_def)
  have r: "r2_score [1, 2, 3] [1, 2, 6] = Inr (- 7 / 2)"
    by (simp add: r2_score_def ss_tot_def ss_res_def mean_def power2_eq_square)
  from metric_ranges [of "[1, 0, 1, 1 :: int]" "[1, 1, 1, 0]" "[1, 2, 3]" "[1, 2, 6]"] nc a r
  show ?thesis by simp
qed

section \<open>Propagation of errors\<close>

subsection \<open>The prediction functions\<close>

lemma predict_single_email_raises:
  "(predict_single_email gnb_predict wc cf = Inl e) =
     (gnb_predict [[wc, cf]] = Inl e \<or> (gnb_predict [[wc, cf]] = Inr [] \<and> e = IndexError))"
  by (auto simp: predict_single_email_def split: sum.splits list.splits)

lemma predict_batch_emails_raises:
  "(predict_batch_emails gnb_predict email_list = Inl e) =
     (gnb_predict (np_array email_list) = Inl e)"
  by (auto simp: predict_batch_emails_def split: sum.splits)

subsection \<open>The cells from the data to the split\<close>

lemma bind_result_eq_Inl:
  "(bind_result m f = Inl e) = (m = Inl e \<or> (\<exists>x. m = Inr x \<and> f x = Inl e))"
  by (cases m) (simp_all add: bind_result_def)

lemma pid_notebook_raises:
  "(pid_notebook fit_calls predict_calls np sk s0 = Inl e) =
     (pid_simulate np s0 = Inl e \<or>
      (\<exists>data. pid_simulate np s0 = Inr data \<and>
         (pid_split sk data = Inl e \<or>
          (\<exists>X_train X_test y_train y_test.
             pid_split sk data = Inr (X_train, X_test, y_train, y_test) \<and>
             fit_calls X_train y_train = Inl e))))"
  by (simp add: pid_notebook_def bind_result_eq_Inl)

lemma spam_split_raises:
  "(spam_split sk = Inl e) =
     (DataFrame spam_data = Inl e \<or>
      (\<exists>df. DataFrame spam_data = Inr df \<and>
         (spam_inputs df = Inl e \<or>
          (\<exists>X y. spam_inputs df = Inr (X, y) \<and> train_test_split sk X y 0.2 42 = Inl e))))"
  by (simp add: spam_split_def bind_result_eq_Inl)

lemma loan_split_raises:
  "(loan_split np sk s0 = Inl e) =
     (loan_generate np s0 = Inl e \<or>
      (\<exists>df. loan_generate np s0 = Inr df \<and>
         (loan_inputs df = Inl e \<or>
          (\<exists>X y. loan_inputs df = Inr (X, y) \<and> train_test_split sk X y 0.2 42 = Inl e))))"
  by (simp add: loan_split_def bind_result_eq_Inl)

lemma house_split_raises:
  "(house_split np sk s0 = Inl e) =
     (house_generate np s0 = Inl e \<or>
      (\<exists>X y. house_generate np s0 = Inr (X, y) \<and> train_test_split sk X y 0.2 42 = Inl e))"
  by (simp add: house_split_def bind_result_eq_Inl)

lemma fruit_split_raises:
  "(fruit_split np sk s0 = Inl e) =
     (fruit_generate np s0 = Inl e \<or>
      (\<exists>df. fruit_generate np s0 = Inr df \<and>
         (fruit_inputs df = Inl e \<or>
          (\<exists>X y. fruit_inputs df = Inr (X, y) \<and> train_test_split sk X y 0.3 42 = Inl e))))"
  by (simp add: fruit_split_def bind_result_eq_Inl)

lemma wearable_split_raises:
  "(wearable_split np sk s0 = Inl e) =
     (wearable_generate np s0 = Inl e \<or>
      (\<exists>df. wearable_generate np s0 = Inr df \<and>
         (wearable_inputs sk df = Inl e \<or>
          (\<exists>X_scaled y. wearable_inputs sk df = Inr (X_scaled, y) \<and>
             train_test_split sk X_scaled y 0.1 42 = Inl e))))"
  by (simp add: wearable_split_def bind_result_eq_Inl)

lemma stock_split_raises:
  "(stock_split np lib sk s0 = Inl e) =
     (stock_generate np s0 = Inl e \<or>
      (\<exists>df0. stock_generate np s0 = Inr df0 \<and>
         (stock_interpolate lib df0 = Inl e \<or>
          (\<exists>df1. stock_interpolate lib df0 = Inr df1 \<and>
             (stock_moving_average df1 = Inl e \<or>
              (\<exists>df2. stock_moving_average df1 = Inr df2 \<and>
                 (stock_date_to_days df2 = Inl e \<or>
                  (\<exists>df3. stock_date_to_days df2 = Inr df3 \<and>
                     (stock_normalize sk df3 = Inl e \<or>
                      (\<exists>df4. stock_normalize sk df3 = Inr df4 \<and>
                         (stock_inputs lib df4 = Inl e \<or>
                          (\<exists>X_poly y. stock_inputs lib df4 = Inr (X_poly, y) \<and>
                             train_test_split sk X_poly y 0.2 42 = Inl e))))))))))))"
  by (simp add: stock_split_def bind_result_eq_Inl)

lemma fault_split_raises:
  "(fault_split lib sk s0 = Inl e) =
     (fault_generate lib s0 = Inl e \<or>
      (\<exists>X y df. fault_generate lib s0 = Inr (X, y, df) \<and>
         train_test_split sk X (as_array [y]) 0.2 42 = Inl e))"
  by (simp add: fault_split_def bind_result_eq_Inl)

lemma text_spam_split_raises:
  "(text_spam_split lib sk = Inl e) =
     (count_vectorizer lib emails = Inl e \<or>
      (\<exists>X. count_vectorizer lib emails = Inr X \<and>
         train_test_split sk X (as_array [labels]) 0.2 42 = Inl e))"
  by (cases "count_vectorizer lib emails")
    (simp_all add: text_spam_split_def text_spam_inputs_def bind_result_def)

lemma iris_split_raises:
  "(iris_split lib sk = Inl e) =
     (train_test_split sk (fst (load_iris lib)) (as_array [snd (load_iris lib)]) 0.2 42 = Inl e)"
  by (simp add: iris_split_def iris_inputs_def Let_def)

subsection \<open>Runs of the notebooks\<close>

lemma handler_free_ends_at_first_raise:
  "handler_free prog \<Longrightarrow> ends_at_first_raise sem prog st"
proof (induction prog arbitrary: st rule: handler_free.induct)
  case (1 st)
  show ?case by (simp add: ends_at_first_raise_def)
next
  case (2 c rest st)
  then have IH: "\<And>st1. ends_at_first_raise sem rest st1" by simp
  show ?case
  proof (cases "sem c st")
    case (Inl e)
    then show ?thesis by (simp add: ends_at_first_raise_def)
  next
    case (Inr st1)
    obtain made raised st2 outcome where r: "run_program sem rest st1 = (made, raised, st2, outcome)"
      by (cases "run_program sem rest st1") auto
    from IH [of st1] r Inr show ?thesis
      by (cases outcome) (auto simp: ends_at_first_raise_def)
  qed
next
  case (3 body handler rest st)
  then show ?case by simp
qed

lemma programs_are_the_call_sequences:
  "map (\<lambda>nb. (fst nb, calls_in (snd nb))) notebook_programs = notebooks"
  by code_simp

lemma notebook_programs_handler_free:
  "list_all (\<lambda>nb. handler_free (snd nb)) notebook_programs"
  by code_simp

text \<open>
  A handler does change a run: the exception of the split is raised and the run still
  goes on to fit the model.
\<close>

lemma handler_swallows_exception:
  "run_program failing_split [TryExcept [Do TrainTestSplit] [], Do (ModelFit ''model'')] 0
     = ([TrainTestSplit, ModelFit ''model''], [ValueError], 1, None) \<and>
   \<not> ends_at_first_raise failing_split
       [TryExcept [Do TrainTestSplit] [], Do (ModelFit ''model'')] 0"
  by (simp add: ends_at_first_raise_def failing_split_def)

lemma train_test_split_broken:
  "n_rows X = n_rows y \<Longrightarrow> train_test_split broken_split X y t r = Inl IndexError"
  by (simp add: train_test_split_def broken_split_def)

lemma spam_inputs_value:
  "DataFrame spam_data = Inr spam_data \<and>
   spam_inputs spam_data =
     Inr ([(''WordCount'', the (map_of spam_data ''WordCount'')),
           (''CapFrequency'', the (map_of spam_data ''CapFrequency''))],
          [(''Spam'', the (map_of spam_data ''Spam''))])"
  by (simp add: DataFrame_def spam_inputs_def get_series_def get_column_def bind_result_def
      spam_data_def)

text \<open>
  Claim C5. No notebook catches, retries or transforms an error. An exception is
  \<open>Inl e\<close>.

  \<^item> \<open>predict_single_email\<close> raises \<open>e\<close> exactly when \<open>gnb.predict\<close> raises
    \<open>e\<close>, or when \<open>gnb.predict\<close> returns no prediction and \<open>e\<close> is the IndexError of
    \<open>[0]\<close>; \<open>predict_batch_emails\<close> raises \<open>e\<close> exactly when \<open>gnb.predict\<close> raises
    \<open>e\<close>. No exception becomes a label.

  \<^item> The cells of every notebook from the data to the train/test split raise \<open>e\<close>
    exactly when one of their steps raises \<open>e\<close> after the steps before it have
    returned: the exception of the first failing step is the exception of the cells, and
    no later step runs on a replacement value.

  \<^item> No notebook contains a \<open>try\<close> statement, and the calls of its statements are its
    call sequence. So, whatever the library calls do, a run of a notebook either makes
    every call with no exception, or ends with the one exception that was raised, the
    call that raised it being the last call made.
\<close>

theorem library_errors_propagate:
  fixes gnb_predict :: "'a list list \<Rightarrow> error + int list"
    and np :: "'s numpy_random"
    and sem :: "call \<Rightarrow> 'st \<Rightarrow> error + 'st"
  shows
   "((predict_single_email gnb_predict wc cf = Inl e) =
       (gnb_predict [[wc, cf]] = Inl e \<or>
        (gnb_predict [[wc, cf]] = Inr [] \<and> e = IndexError))) \<and>
    ((predict_batch_emails gnb_predict email_list = Inl e) =
       (gnb_predict (np_array email_list) = Inl e)) \<and>
    ((pid_boosting_notebook np sk s0 = Inl e) =
       (pid_simulate np s0 = Inl e \<or>
        (\<exists>data. pid_simulate np s0 = Inr data \<and>
           (pid_split sk data = Inl e \<or>
            (\<exists>X_train X_test y_train y_test.
               pid_split sk data = Inr (X_train, X_test, y_train, y_test) \<and>
               pid_boosting_fit_calls X_train y_train = Inl e))))) \<and>
    ((pid_forest_notebook np sk s0 = Inl e) =
       (pid_simulate np s0 = Inl e \<or>
        (\<exists>data. pid_simulate np s0 = Inr data \<and>
           (pid_split sk data = Inl e \<or>
            (\<exists>X_train X_test y_train y_test.
               pid_split sk data = Inr (X_train, X_test, y_train, y_test) \<and>
               pid_forest_fit_calls X_train y_train = Inl e))))) \<and>
    ((spam_split sk = Inl e) =
       (DataFrame spam_data = Inl e \<or>
        (\<exists>df. DataFrame spam_data = Inr df \<and>
           (spam_inputs df = Inl e \<or>
            (\<exists>X y. spam_inputs df = Inr (X, y) \<and>
               train_test_split sk X y 0.2 42 = Inl e))))) \<and>
    ((loan_split np sk s0 = Inl e) =
       (loan_generate np s0 = Inl e \<or>
        (\<exists>df. loan_generate np s0 = Inr df \<and>
           (loan_inputs df = Inl e \<or>
            (\<exists>X y. loan_inputs df = Inr (X, y) \<and>
               train_test_split sk X y 0.2 42 = Inl e))))) \<and>
    ((house_split np sk s0 = Inl e) =
       (house_generate np s0 = Inl e \<or>
        (\<exists>X y. house_generate np s0 = Inr (X, y) \<and>
           train_test_split sk X y 0.2 42 = Inl e))) \<and>
    ((fruit_split np sk s0 = Inl e) =
       (fruit_generate np s0 = Inl e \<or>
        (\<exists>df. fruit_generate np s0 = Inr df \<and>
           (fruit_inputs df = Inl e \<or>
            (\<exists>X y. fruit_inputs df = Inr (X, y) \<and>
               train_test_split sk X y 0.3 42 = Inl e))))) \<and>
    ((wearable_split np sk s0 = Inl e) =
       (wearable_generate np s0 = Inl e \<or>
        (\<exists>df. wearable_generate np s0 = Inr df \<and>
           (wearable_inputs sk df = Inl e \<or>
            (\<exists>X_scaled y. wearable_inputs sk df = Inr (X_scaled, y) \<and>
               train_test_split sk X_scaled y 0.1 42 = Inl e))))) \<and>
    ((stock_split np lib sk s0 = Inl e) =
       (stock_generate np s0 = Inl e \<or>
        (\<exists>df0. stock_generate np s0 = Inr df0 \<and>
           (stock_interpolate lib df0 = Inl e \<or>
            (\<exists>df1. stock_interpolate lib df0 = Inr df1 \<and>
               (stock_moving_average df1 = Inl e \<or>
                (\<exists>df2. stock_moving_average df1 = Inr df2 \<and>
                   (stock_date_to_days df2 = Inl e \<or>
                    (\<exists>df3. stock_date_to_days df2 = Inr df3 \<and>
                       (stock_normalize sk df3 = Inl e \<or>
                        (\<exists>df4. stock_normalize sk df3 = Inr df4 \<and>
                           (stock_inputs lib df4 = Inl e \<or>
                            (\<exists>X_poly y. stock_inputs lib df4 = Inr (X_poly, y) \<and>
                               train_test_split sk X_poly y 0.2 42 = Inl e))))))))))))) \<and>
    ((fault_split lib sk s0 = Inl e) =
       (fault_generate lib s0 = Inl e \<or>
        (\<exists>X y df. fault_generate lib s0 = Inr (X, y, df) \<and>
           train_test_split sk X (as_array [y]) 0.2 42 = Inl e))) \<and>
    ((text_spam_split lib sk = Inl e) =
       (count_vectorizer lib emails = Inl e \<or>
        (\<exists>X. count_vectorizer lib emails = Inr X \<and>
           train_test_split sk X (as_array [labels]) 0.2 42 = Inl e))) \<and>
    ((iris_split lib sk = Inl e) =
       (train_test_split sk (fst (load_iris lib)) (as_array [snd (load_iris lib)]) 0.2 42
          = Inl e)) \<and>
    map (\<lambda>nb. (fst nb, calls_in (snd nb))) notebook_programs = notebooks \<and>
    (\<forall>nb \<in> set notebook_programs.
       handler_free (snd nb) \<and> ends_at_first_raise sem (snd nb) st)"
proof -
  have free: "\<forall>nb \<in> set notebook_programs. handler_free (snd nb)"
    using notebook_programs_handler_free by (simp add: list_all_iff)
  then have ends: "\<forall>nb \<in> set notebook_programs.
      handler_free (snd nb) \<and> ends_at_first_raise sem (snd nb) st"
    by (simp add: handler_free_ends_at_first_raise)
  show ?thesis
    apply (intro conjI)
                  apply (rule predict_single_email_raises)
                 apply (rule predict_batch_emails_raises)
                apply (unfold pid_boosting_notebook_def, rule pid_notebook_raises)
               apply (unfold pid_forest_notebook_def, rule pid_notebook_raises)
              apply (rule spam_split_raises)
             apply (rule loan_split_raises)
            apply (rule house_split_raises)
           apply (rule fruit_split_raises)
          apply (rule wearable_split_raises)
         apply (rule stock_split_raises)
        apply (rule fault_split_raises)
       apply (rule text_spam_split_raises)
      apply (rule iris_split_raises)
     apply (rule programs_are_the_call_sequences)
    apply (rule ends)
    done
qed

theorem library_errors_propagate_witness:
  "predict_single_email (\<lambda>X :: int list list. Inl ValueError) 400 2 = Inl ValueError \<and>
   predict_single_email (\<lambda>X :: int list list. Inr []) 400 2 = Inl IndexError \<and>
   predict_batch_emails (\<lambda>X :: int list list. Inl ValueError) [(150, 1), (700, 5), (300, 2)]
     = Inl ValueError \<and>
   text_spam_split (constant_library \<lparr> count_vectorizer := \<lambda>docs. Inl ValueError \<rparr>)
     identity_prep = Inl ValueError \<and>
   spam_split broken_split = Inl IndexError \<and>
   handler_free loan_default_program \<and>
   ends_at_first_raise failing_split loan_default_program 0 \<and>
   run_program failing_split loan_default_program 0
     = (take 7 loan_default_calls, [ValueError], 6, Some ValueError)"
proof -
  note t1 = library_errors_propagate [of "\<lambda>X :: int list list. Inl ValueError" 400 2
      ValueError "[(150, 1), (700, 5), (300, 2)]" counter_random identity_prep 0
      "constant_library \<lparr> count_vectorizer := \<lambda>docs. Inl ValueError \<rparr>" failing_split 0]
  note t2 = library_errors_propagate [of "\<lambda>X :: int list list. Inr []" 400 2
      IndexError "[]" counter_random broken_split 0 constant_library failing_split 0]
  have single: "predict_single_email (\<lambda>X :: int list list. Inl ValueError) 400 2
      = Inl ValueError"
    using t1 [THEN conjunct1] by simp
  have index: "predict_single_email (\<lambda>X :: int list list. Inr []) 400 2 = Inl IndexError"
    using t2 [THEN conjunct1] by simp
  have batch: "predict_batch_emails (\<lambda>X :: int list list. Inl ValueError)
      [(150, 1), (700, 5), (300, 2)] = Inl ValueError"
    using t1 [THEN conjunct2, THEN conjunct1] by simp
  have vec: "text_spam_split (constant_library \<lparr> count_vectorizer := \<lambda>docs. Inl ValueError \<rparr>)
      identity_prep = Inl ValueError"
    using t1 [THEN conjunct2, THEN conjunct2, THEN conjunct2, THEN conjunct2, THEN conjunct2, THEN conjunct2, THEN conjunct2, THEN conjunct2, THEN conjunct2, THEN conjunct2, THEN conjunct2, THEN conjunct1] by simp
  have "train_test_split broken_split
      [(''WordCount'', the (map_of spam_data ''WordCount'')),
       (''CapFrequency'', the (map_of spam_data ''CapFrequency''))]
      [(''Spam'', the (map_of spam_data ''Spam''))] 0.2 42 = Inl IndexError"
    by (rule train_test_split_broken) (simp add: n_rows_def spam_data_def)
  with spam_inputs_value have "\<exists>df. DataFrame spam_data = Inr df \<and>
      (spam_inputs df = Inl IndexError \<or>
       (\<exists>X y. spam_inputs df = Inr (X, y) \<and>
          train_test_split broken_split X y 0.2 42 = Inl IndexError))"
    by blast
  with t2 [THEN conjunct2, THEN conjunct2, THEN conjunct2, THEN conjunct2, THEN conjunct1] have spam: "spam_split broken_split = Inl IndexError"
    by simp
  have "(''loan_default'', loan_default_program) \<in> set notebook_programs"
    by (simp add: notebook_programs_def)
  with t1 [THEN conjunct2, THEN conjunct2, THEN conjunct2, THEN conjunct2, THEN conjunct2, THEN conjunct2, THEN conjunct2, THEN conjunct2, THEN conjunct2, THEN conjunct2, THEN conjunct2, THEN conjunct2, THEN conjunct2, THEN conjunct2] have loan: "handler_free loan_default_program \<and>
      ends_at_first_raise failing_split loan_default_program 0"
    by fastforce
  have run: "run_program failing_split loan_default_program 0
      = (take 7 loan_default_calls, [ValueError], 6, Some ValueError)"
    by (simp add: loan_default_program_def loan_default_calls_def failing_split_def)
  from single index batch vec spam loan run show ?thesis by simp
qed

section \<open>Order and contents of the notebooks\<close>

text \<open>
  Claim C1, as the specification states it, fails on the loan default notebook:
  its seventh call is the train/test split and the two calls after it standardise the
  training and the test features, so the split precedes the preprocessing and the calls are
  not in pipeline order.
\<close>

theorem loan_default_splits_before_scaling:
  "take 3 (drop 6 loan_default_calls) =
     [TrainTestSplit,
      Transform ''StandardScaler.fit_transform'' ''X_train'',
      Transform ''StandardScaler.transform'' ''X_test''] \<and>
   \<not> none_after Split Preprocess loan_default_calls \<and>
   \<not> in_pipeline_order loan_default_calls"
  by (simp add: loan_default_calls_def in_pipeline_order_def)

text \<open>
  Claim C1, amended. Every notebook starts with data generation, fits no model before the
  train/test split and fits every model before predicting with it or scoring it. The loan
  default notebook is the only one with preprocessing after the split. Six notebooks (both
  PID notebooks, the checkpoint copy of the spam filter, text spam, fruit classification,
  wearable sensor) never return to an earlier stage of the pipeline.
\<close>

theorem stage_order_of_notebooks:
  "every_notebook starts_with_generation \<and>
   every_notebook (no_earlier Split Fit) \<and>
   every_notebook (fitted_before_use []) \<and>
   notebooks_where (\<lambda>cs. \<not> none_after Split Preprocess cs) = [''loan_default''] \<and>
   notebooks_where in_pipeline_order =
     [''pid_boosting'', ''pid_random_forest'', ''gnb_spam_checkpoint'', ''text_spam'',
      ''fruit_classification'', ''wearable_sensor'']"
  by code_simp

theorem stage_order_of_notebooks_witness:
  "no_earlier Split Fit loan_default_calls \<and> fitted_before_use [] stock_price_calls"
  using stage_order_of_notebooks by (simp add: every_notebook_def notebooks_def)

text \<open>
  Claim C2, as the specification states it, fails on the Gaussian Naive Bayes spam
  notebook, which draws no plot at all.
\<close>

theorem spam_notebook_draws_no_plot:
  "\<not> draws_plot gnb_spam_calls \<and> \<not> plots_predictions_against_truth gnb_spam_calls"
  by code_simp

text \<open>
  Claim C2, amended. Every notebook constructs a data set and fits a library model. Eleven
  notebooks (all but the text spam notebook, about which nothing is said) compute a
  standard metric on the predictions of a fitted model. A scatter or line plot of
  predictions together with ground truth is drawn by the two PID notebooks and the stock
  and house price notebooks only; the loan default and fruit notebooks draw other plots,
  the remaining six none.
\<close>

theorem contents_of_notebooks:
  "every_notebook constructs_dataset \<and>
   every_notebook fits_model \<and>
   set [''pid_boosting'', ''pid_random_forest'', ''gnb_spam'', ''gnb_spam_checkpoint'',
        ''stock_price'', ''house_price'', ''loan_default'', ''fault_detection'',
        ''iris_pruning'', ''fruit_classification'', ''wearable_sensor'']
     \<subseteq> set (notebooks_where metric_on_predictions) \<and>
   notebooks_where plots_predictions_against_truth =
     [''pid_boosting'', ''pid_random_forest'', ''stock_price'', ''house_price''] \<and>
   notebooks_where draws_plot =
     [''pid_boosting'', ''pid_random_forest'', ''stock_price'', ''house_price'',
      ''loan_default'', ''fruit_classification'']"
  by code_simp

theorem contents_of_notebooks_witness:
  "constructs_dataset iris_pruning_calls \<and> fits_model iris_pruning_calls"
  using contents_of_notebooks by (simp add: every_notebook_def notebooks_def)

section \<open>Properties of the prediction functions\<close>

text \<open>
  Claim C9. predict_single_email returns "Spam" exactly when the model's prediction for the
  (word_count, cap_frequency) row is 1 and "Not Spam" otherwise. predict_batch_emails, when
  the model returns one prediction per input row, returns a list as long as its input whose
  i-th element is "Spam" or "Not Spam" according to the model's i-th prediction.
\<close>

theorem predict_emails_labels:
  fixes gnb_predict :: "'a list list \<Rightarrow> error + int list"
  shows "(gnb_predict [[wc, cf]] = Inr (p # ps) \<longrightarrow>
            predict_single_email gnb_predict wc cf
              = Inr (if p = 1 then ''Spam'' else ''Not Spam'') \<and>
            (predict_single_email gnb_predict wc cf = Inr ''Spam'' \<longleftrightarrow> p = 1)) \<and>
         (gnb_predict (np_array email_list) = Inr preds \<and> length preds = length email_list \<longrightarrow>
            (\<exists>out. predict_batch_emails gnb_predict email_list = Inr out \<and>
               length out = length email_list \<and>
               (\<forall>i < length email_list.
                  out ! i = (if preds ! i = 1 then ''Spam'' else ''Not Spam'')) \<and>
               set out \<subseteq> {''Spam'', ''Not Spam''}))"
  by (auto simp: predict_single_email_def predict_batch_emails_def)

theorem predict_emails_labels_witness:
  "predict_single_email threshold_model 400 2 = Inr ''Spam'' \<and>
   (\<exists>out. predict_batch_emails threshold_model [(150, 1), (700, 5), (300, 2)] = Inr out \<and>
      length out = 3 \<and> out ! 0 = ''Not Spam'' \<and> out ! 1 = ''Spam'' \<and> out ! 2 = ''Not Spam'')"
proof -
  have single: "threshold_model [[400, 2]] = Inr (1 # [])"
    by (simp add: threshold_model_def)
  have batch: "threshold_model (np_array [(150, 1), (700, 5), (300, 2)]) = Inr [0, 1, 0]
      \<and> length [0, 1, 0 :: int] = length [(150 :: int, 1 :: int), (700, 5), (300, 2)]"
    by (simp add: threshold_model_def np_array_def)
  from predict_emails_labels [of threshold_model 400 2 1 "[]"
      "[(150, 1), (700, 5), (300, 2)]" "[0, 1, 0]"] single batch
  show ?thesis by (auto simp: nth_Cons')
qed

end
